theory Spec2Isabelle
  imports Main "HOL-Library.Word"
begin

unbundle bit_operations_syntax

section \<open>The value codec (the CBOR encoder and decoder module)\<close>

subsection \<open>JavaScript numbers\<close>

text \<open>
  A JavaScript number is an IEEE-754 binary64 value.  It is modelled by its bit pattern:
  bit 63 is the sign, bits 62..52 the biased exponent, bits 51..0 the fraction.  The
  language has one NaN, which is represented here by the quiet NaN \<open>0x7FF8000000000000\<close>.
  The value \<open>5.0\<close> and the value \<open>5\<close> are the same number, with the same bit pattern.
\<close>

type_synonym byte = "8 word"
type_synonym float64 = "64 word"

definition f64_negative :: "float64 \<Rightarrow> bool" where
  "f64_negative d = (2 ^ 63 \<le> unat d)"

definition f64_exponent :: "float64 \<Rightarrow> nat" where
  "f64_exponent d = (unat d div 2 ^ 52) mod 2 ^ 11"

definition f64_fraction :: "float64 \<Rightarrow> nat" where
  "f64_fraction d = unat d mod 2 ^ 52"

definition f64_NaN :: float64 where
  "f64_NaN = 0x7FF8000000000000"

definition f64_isNaN :: "float64 \<Rightarrow> bool" where
  "f64_isNaN d = (f64_exponent d = 2047 \<and> f64_fraction d \<noteq> 0)"

text \<open>
  \<open>Number.isInteger(value)\<close>: the number is finite and has no fractional part.  Infinities
  and NaN (exponent 2047) are not integers, both zeros are, subnormals and every other
  value below 1 in magnitude are not; from exponent 1075 on (magnitude at least \<open>2^52\<close>)
  every value is integral, and in between the low \<open>1075 - e\<close> fraction bits must be zero.
\<close>

definition Number_isInteger :: "float64 \<Rightarrow> bool" where
  "Number_isInteger d =
     (let e = f64_exponent d; m = f64_fraction d in
      if e = 2047 then False
      else if e = 0 then m = 0
      else if e < 1023 then False
      else if 1075 \<le> e then True
      else m mod 2 ^ (1075 - e) = 0)"

text \<open>The mathematical value of a number for which \<open>Number.isInteger\<close> holds.\<close>

definition f64_magnitude :: "float64 \<Rightarrow> nat" where
  "f64_magnitude d =
     (let e = f64_exponent d; m = f64_fraction d in
      if e = 0 then 0
      else if 1075 \<le> e then (2 ^ 52 + m) * 2 ^ (e - 1075)
      else (2 ^ 52 + m) div 2 ^ (1075 - e))"

definition f64_to_int :: "float64 \<Rightarrow> int" where
  "f64_to_int d = (if f64_negative d then - int (f64_magnitude d) else int (f64_magnitude d))"

text \<open>
  The number with a given integer value, for magnitudes below \<open>2^53\<close> (where every integer
  is representable exactly): \<open>ilog2\<close> finds the position of the leading bit.
\<close>

fun ilog2 :: "nat \<Rightarrow> nat" where
  "ilog2 n = (if n < 2 then 0 else Suc (ilog2 (n div 2)))"

declare ilog2.simps [simp del]

definition f64_of_int :: "int \<Rightarrow> float64" where
  "f64_of_int n =
     (if n = 0 then 0
      else let a = nat \<bar>n\<bar>; p = ilog2 a in
        of_nat ((if n < 0 then 2 ^ 63 else 0) + (1023 + p) * 2 ^ 52 + (a - 2 ^ p) * 2 ^ (52 - p)))"

text \<open>\<open>DataView.setFloat64(0, value)\<close> followed by eight \<open>getUint8(i)\<close>: big-endian bytes.\<close>

definition float64_bytes :: "float64 \<Rightarrow> int list" where
  "float64_bytes d = map (\<lambda>i. int ((unat d div 2 ^ (8 * (7 - i))) mod 256)) [0..<8]"

subsection \<open>Values\<close>

text \<open>
  The JavaScript values the encoder distinguishes, in the order of its tests: \<open>null\<close>,
  \<open>undefined\<close>, booleans, numbers, strings, \<open>Uint8Array\<close>s, arrays and plain objects.
  A string is modelled by its UTF-8 byte sequence, so that \<open>TextEncoder.encode\<close> is the
  bytes of the string.  An object is modelled by its own enumerable properties in the
  order of \<open>Object.keys\<close>, each with its value; the keys of an object are distinct.
\<close>

datatype val =
    VNull
  | VUndefined
  | VBool bool
  | VNum float64
  | VText string
  | VBytes "byte list"
  | VArray "val list"
  | VObject "(string \<times> val) list"

subsection \<open>Encoding\<close>

text \<open>
  The output buffer is a JavaScript array of numbers, to which the encoder pushes; it is
  modelled as an \<open>int list\<close>.  \<open>encode\<close> converts it with \<open>new Uint8Array(buffer)\<close>, which
  reduces every element modulo 256.

  The operators \<open><<\<close>, \<open>>>\<close>, \<open>|\<close> and \<open>&\<close> work on the 32-bit two's complement
  reading of their operands (\<open>ToInt32\<close>); \<open>>>\<close> is the arithmetic shift.
\<close>

definition ToInt32 :: "int \<Rightarrow> int" where
  "ToInt32 n = (n + 2 ^ 31) mod 2 ^ 32 - 2 ^ 31"

definition js_shl :: "int \<Rightarrow> nat \<Rightarrow> int" where
  "js_shl a k = ToInt32 (push_bit k (ToInt32 a))"

definition js_sar :: "int \<Rightarrow> nat \<Rightarrow> int" where
  "js_sar a k = drop_bit k (ToInt32 a)"

definition js_or :: "int \<Rightarrow> int \<Rightarrow> int" where
  "js_or a b = ToInt32 a OR ToInt32 b"

definition js_and :: "int \<Rightarrow> int \<Rightarrow> int" where
  "js_and a b = ToInt32 a AND ToInt32 b"

definition encodeUnsigned :: "int \<Rightarrow> int \<Rightarrow> int list \<Rightarrow> int list" where
  "encodeUnsigned value majorType buffer =
     (let type = js_shl majorType 5 in
      if value < 24 then buffer @ [js_or type value]
      else if value < 256 then buffer @ [js_or type 24, value]
      else if value < 65536 then
        buffer @ [js_or type 25, js_sar value 8, js_and value 0xFF]
      else if value < 4294967296 then
        buffer @ [js_or type 26, js_sar value 24, js_and (js_sar value 16) 0xFF,
                  js_and (js_sar value 8) 0xFF, js_and value 0xFF]
      else buffer)"

text \<open>
  \<open>encodeItem\<close>.  In the integer branch the argument \<open>-value - 1\<close> is computed on numbers;
  it is exact up to magnitude \<open>2^53\<close>, and beyond that both the exact and the rounded result
  are at least \<open>2^32\<close>, where \<open>encodeUnsigned\<close> takes its last (empty) branch either way.
\<close>

fun encodeItem :: "val \<Rightarrow> int list \<Rightarrow> int list"
  and encodeItems :: "val list \<Rightarrow> int list \<Rightarrow> int list"
  and encodeEntries :: "(string \<times> val) list \<Rightarrow> int list \<Rightarrow> int list"
where
  "encodeItem VNull buffer = buffer @ [0xF6]"
| "encodeItem VUndefined buffer = buffer @ [0xF7]"
| "encodeItem (VBool b) buffer = buffer @ [if b then 0xF5 else 0xF4]"
| "encodeItem (VNum d) buffer =
     (if Number_isInteger d then
        (if 0 \<le> f64_to_int d then encodeUnsigned (f64_to_int d) 0 buffer
         else encodeUnsigned (- f64_to_int d - 1) 1 buffer)
      else (buffer @ [0xFB]) @ float64_bytes d)"
| "encodeItem (VText s) buffer =
     encodeUnsigned (int (length s)) 3 buffer @ map (\<lambda>c. int (of_char c)) s"
| "encodeItem (VBytes bs) buffer =
     encodeUnsigned (int (length bs)) 2 buffer @ map uint bs"
| "encodeItem (VArray items) buffer =
     encodeItems items (encodeUnsigned (int (length items)) 4 buffer)"
| "encodeItem (VObject entries) buffer =
     encodeEntries entries (encodeUnsigned (int (length entries)) 5 buffer)"
| "encodeItems [] buffer = buffer"
| "encodeItems (item # items) buffer = encodeItems items (encodeItem item buffer)"
| "encodeEntries [] buffer = buffer"
| "encodeEntries (kv # entries) buffer =
     encodeEntries entries (encodeItem (snd kv) (encodeItem (VText (fst kv)) buffer))"

definition ToUint8 :: "int \<Rightarrow> byte" where
  "ToUint8 n = of_int (n mod 256)"

definition encode :: "val \<Rightarrow> byte list" where
  "encode v = map ToUint8 (encodeItem v [])"

subsection \<open>Decoding\<close>

text \<open>
  A call returns, throws, or leaves this model.  \<open>Throw\<close> carries the exception: the
  \<open>RangeError\<close> of an out-of-bounds \<open>DataView\<close> read or typed-array construction, the
  \<open>Error\<close> \<open>Unsupported CBOR type: n\<close> of the decoder's last line, the engine's error for
  unbounded recursion, or any other \<open>Error\<close> with its message (the callers of the codec
  throw such errors).  \<open>Unmodelled\<close> marks the inputs on which the result depends on parts
  of the runtime that are not modelled here: the replacement of ill-formed or non-ASCII
  UTF-8 by \<open>TextDecoder\<close>, the \<open>ToString\<close> coercion of map keys that are not text,
  integer-like property names (which an object orders first) and \<open>__proto__\<close>.  No statement
  below is about such an input.
\<close>

datatype exn = RangeError | Unsupported nat | StackOverflow | Error string

datatype 'a completion = Return 'a | Throw exn | Unmodelled

text \<open>
  Offsets and byte counts are numbers that are either a non-negative integer or \<open>NaN\<close>:
  \<open>bytesUsed + value\<close> is \<open>NaN\<close> when \<open>value\<close> was left \<open>undefined\<close>.  Where an index is
  expected (\<open>ToIndex\<close>), \<open>NaN\<close> counts as 0.
\<close>

datatype number = Ix nat | NaN

fun ToIndex :: "number \<Rightarrow> nat" where
  "ToIndex (Ix n) = n"
| "ToIndex NaN = 0"

fun plus_number :: "number \<Rightarrow> number \<Rightarrow> number" where
  "plus_number (Ix a) (Ix b) = Ix (a + b)"
| "plus_number _ _ = NaN"

fun minus_number :: "number \<Rightarrow> number \<Rightarrow> number" where
  "minus_number (Ix a) (Ix b) = Ix (a - b)"
| "minus_number _ _ = NaN"

text \<open>
  A \<open>Uint8Array\<close> or \<open>DataView\<close> is a window of \<open>byteLength\<close> bytes at \<open>byteOffset\<close> of an
  underlying \<open>ArrayBuffer\<close>.  \<open>new Uint8Array(list)\<close> owns a buffer of exactly its bytes.
\<close>

record dataview =
  buffer :: "byte list"
  byteOffset :: nat
  byteLength :: nat

definition Uint8Array_from :: "byte list \<Rightarrow> dataview" where
  "Uint8Array_from bs = \<lparr>buffer = bs, byteOffset = 0, byteLength = length bs\<rparr>"

text \<open>The \<open>DataView\<close> getters: big-endian, \<open>RangeError\<close> when the read leaves the view.\<close>

definition getBytes :: "dataview \<Rightarrow> number \<Rightarrow> nat \<Rightarrow> byte list completion" where
  "getBytes view offset n =
     (let i = ToIndex offset in
      if i + n \<le> byteLength view then Return (take n (drop (byteOffset view + i) (buffer view)))
      else Throw RangeError)"

definition be_value :: "byte list \<Rightarrow> nat" where
  "be_value bs = foldl (\<lambda>a b. 256 * a + unat b) 0 bs"

definition getUint :: "dataview \<Rightarrow> number \<Rightarrow> nat \<Rightarrow> nat completion" where
  "getUint view offset n =
     (case getBytes view offset n of
        Return bs \<Rightarrow> Return (be_value bs)
      | Throw e \<Rightarrow> Throw e
      | Unmodelled \<Rightarrow> Unmodelled)"

definition getUint8 :: "dataview \<Rightarrow> number \<Rightarrow> nat completion" where
  "getUint8 view offset = getUint view offset 1"

definition getUint16 :: "dataview \<Rightarrow> number \<Rightarrow> nat completion" where
  "getUint16 view offset = getUint view offset 2"

definition getUint32 :: "dataview \<Rightarrow> number \<Rightarrow> nat completion" where
  "getUint32 view offset = getUint view offset 4"

definition getFloat64 :: "dataview \<Rightarrow> number \<Rightarrow> float64 completion" where
  "getFloat64 view offset =
     (case getUint view offset 8 of
        Return n \<Rightarrow> Return (if f64_isNaN (of_nat n) then f64_NaN else of_nat n)
      | Throw e \<Rightarrow> Throw e
      | Unmodelled \<Rightarrow> Unmodelled)"

text \<open>
  \<open>new Uint8Array(view.buffer, start, length)\<close>: a window of the underlying buffer (not of
  the view).  With \<open>length\<close> \<open>undefined\<close> it runs to the end of the buffer.
\<close>

definition Uint8Array_window :: "byte list \<Rightarrow> number \<Rightarrow> nat option \<Rightarrow> byte list completion" where
  "Uint8Array_window buf start len =
     (let i = ToIndex start in
      case len of
        None \<Rightarrow> if i \<le> length buf then Return (drop i buf) else Throw RangeError
      | Some n \<Rightarrow> if i + n \<le> length buf then Return (take n (drop i buf)) else Throw RangeError)"

definition TextDecoder_decode :: "byte list \<Rightarrow> string completion" where
  "TextDecoder_decode bs =
     (if list_all (\<lambda>b. b < 0x80) bs then Return (map (\<lambda>b. char_of (unat b)) bs)
      else Unmodelled)"

text \<open>
  \<open>map[key.value] = val.value\<close> on the object built so far: a new text key is appended,
  a key that is present keeps its place and gets the new value.
\<close>

fun assign :: "(string \<times> val) list \<Rightarrow> string \<Rightarrow> val \<Rightarrow> (string \<times> val) list" where
  "assign [] k v = [(k, v)]"
| "assign (p # ps) k v = (if fst p = k then (k, v) # ps else p # assign ps k v)"

definition propertyKey :: "val \<Rightarrow> string option" where
  "propertyKey k =
     (case k of
        VText s \<Rightarrow>
          if s = ''__proto__'' \<or> (s \<noteq> [] \<and> list_all (\<lambda>c. c \<in> set ''0123456789'') s)
          then None else Some s
      | _ \<Rightarrow> None)"

text \<open>
  The first part of \<open>decodeItem\<close>, up to the \<open>switch\<close>: the initial byte, the major type, the
  additional information and the length descriptor.  \<open>Early\<close> is one of the four early
  returns, \<open>Head\<close> carries \<open>majorType\<close>, \<open>info\<close>, \<open>value\<close> (\<open>None\<close> while it is \<open>undefined\<close>)
  and \<open>bytesUsed\<close> into the \<open>switch\<close>.
\<close>

datatype head = Early val nat | Head nat nat "nat option" nat

definition decodeHead :: "dataview \<Rightarrow> number \<Rightarrow> head completion" where
  "decodeHead view offset =
     (case getUint8 view offset of
        Throw e \<Rightarrow> Throw e
      | Unmodelled \<Rightarrow> Unmodelled
      | Return byte \<Rightarrow>
         (let majorType = drop_bit 5 byte; info = byte AND 0x1F in
          if info < 24 then Return (Head majorType info (Some info) 1)
          else if info = 24 then
            (case getUint8 view (plus_number offset (Ix 1)) of
               Return v \<Rightarrow> Return (Head majorType info (Some v) 2)
             | Throw e \<Rightarrow> Throw e | Unmodelled \<Rightarrow> Unmodelled)
          else if info = 25 then
            (case getUint16 view (plus_number offset (Ix 1)) of
               Return v \<Rightarrow> Return (Head majorType info (Some v) 3)
             | Throw e \<Rightarrow> Throw e | Unmodelled \<Rightarrow> Unmodelled)
          else if info = 26 then
            (case getUint32 view (plus_number offset (Ix 1)) of
               Return v \<Rightarrow> Return (Head majorType info (Some v) 5)
             | Throw e \<Rightarrow> Throw e | Unmodelled \<Rightarrow> Unmodelled)
          else if info = 0xF4 then Return (Early (VBool False) 1)
          else if info = 0xF5 then Return (Early (VBool True) 1)
          else if info = 0xF6 then Return (Early VNull 1)
          else if info = 0xF7 then Return (Early VUndefined 1)
          else Return (Head majorType info None 1)))"

text \<open>
  The \<open>switch\<close> of \<open>decodeItem\<close>, with the two container loops as functions of their own:
  \<open>decodeArray view n arrayOffset array\<close> runs the remaining \<open>n\<close> iterations of the array
  loop, \<open>decodeMap\<close> those of the map loop.

  When \<open>offset\<close> is \<open>NaN\<close> every read is at index 0 and \<open>offset + bytesUsed\<close> is \<open>NaN\<close> again,
  so a container with at least one element calls \<open>decodeItem(view, NaN)\<close> from inside
  \<open>decodeItem(view, NaN)\<close> without end, until the engine throws.  Everywhere else the offset
  grows with each nested call and stays below \<open>byteLength\<close>, which is the termination
  argument.
\<close>

lemma getBytes_Return_bound:
  "getBytes view (Ix off) n = Return bs \<Longrightarrow> off + n \<le> byteLength view"
  by (simp add: getBytes_def Let_def split: if_splits)

lemma decodeHead_Head_bound:
  assumes "decodeHead view (Ix off) = Return (Head majorType info v bytesUsed)"
  shows "off < byteLength view \<and> 0 < bytesUsed"
proof -
  obtain byte where b: "getUint8 view (Ix off) = Return byte"
    using assms by (auto simp: decodeHead_def split: completion.splits)
  then have "off + 1 \<le> byteLength view"
    by (auto simp: getUint8_def getUint_def split: completion.splits dest: getBytes_Return_bound)
  moreover have "0 < bytesUsed"
    using assms b by (auto simp: decodeHead_def Let_def split: completion.splits if_splits)
  ultimately show ?thesis by simp
qed

definition remaining :: "dataview \<Rightarrow> number \<Rightarrow> nat" where
  "remaining view offset = (case offset of Ix off \<Rightarrow> byteLength view - off | NaN \<Rightarrow> 0)"

function decodeItem :: "dataview \<Rightarrow> number \<Rightarrow> (val \<times> number) completion"
  and decodeArray :: "dataview \<Rightarrow> nat \<Rightarrow> number \<Rightarrow> val list \<Rightarrow> (val list \<times> number) completion"
  and decodeMap :: "dataview \<Rightarrow> nat \<Rightarrow> number \<Rightarrow> (string \<times> val) list
                      \<Rightarrow> ((string \<times> val) list \<times> number) completion"
where
  "decodeItem view offset =
     (case decodeHead view offset of
        Throw e \<Rightarrow> Throw e
      | Unmodelled \<Rightarrow> Unmodelled
      | Return (Early v used) \<Rightarrow> Return (v, Ix used)
      | Return (Head majorType info value bytesUsed) \<Rightarrow>
          if majorType = 0 then
            Return (case value of None \<Rightarrow> VUndefined | Some n \<Rightarrow> VNum (f64_of_int (int n)),
                    Ix bytesUsed)
          else if majorType = 1 then
            Return (case value of None \<Rightarrow> VNum f64_NaN
                    | Some n \<Rightarrow> VNum (f64_of_int (- 1 - int n)), Ix bytesUsed)
          else if majorType = 2 then
            (case Uint8Array_window (buffer view)
                    (plus_number (plus_number (Ix (byteOffset view)) offset) (Ix bytesUsed)) value of
               Throw e \<Rightarrow> Throw e
             | Unmodelled \<Rightarrow> Unmodelled
             | Return bytes \<Rightarrow>
                 Return (VBytes bytes,
                   (case value of None \<Rightarrow> NaN | Some n \<Rightarrow> Ix (bytesUsed + n))))
          else if majorType = 3 then
            (case Uint8Array_window (buffer view)
                    (plus_number (plus_number (Ix (byteOffset view)) offset) (Ix bytesUsed)) value of
               Throw e \<Rightarrow> Throw e
             | Unmodelled \<Rightarrow> Unmodelled
             | Return bytes \<Rightarrow>
                 (case TextDecoder_decode bytes of
                    Throw e \<Rightarrow> Throw e
                  | Unmodelled \<Rightarrow> Unmodelled
                  | Return text \<Rightarrow>
                      Return (VText text,
                        (case value of None \<Rightarrow> NaN | Some n \<Rightarrow> Ix (bytesUsed + n)))))
          else if majorType = 4 then
            (case offset of
               NaN \<Rightarrow>
                 (case value of None \<Rightarrow> Return (VArray [], NaN)
                  | Some n \<Rightarrow> if n = 0 then Return (VArray [], NaN) else Throw StackOverflow)
             | Ix off \<Rightarrow>
                 (case decodeArray view (case value of None \<Rightarrow> 0 | Some n \<Rightarrow> n)
                         (Ix (off + bytesUsed)) [] of
                    Throw e \<Rightarrow> Throw e
                  | Unmodelled \<Rightarrow> Unmodelled
                  | Return (array, arrayOffset) \<Rightarrow>
                      Return (VArray array, minus_number arrayOffset offset)))
          else if majorType = 5 then
            (case offset of
               NaN \<Rightarrow>
                 (case value of None \<Rightarrow> Return (VObject [], NaN)
                  | Some n \<Rightarrow> if n = 0 then Return (VObject [], NaN) else Throw StackOverflow)
             | Ix off \<Rightarrow>
                 (case decodeMap view (case value of None \<Rightarrow> 0 | Some n \<Rightarrow> n)
                         (Ix (off + bytesUsed)) [] of
                    Throw e \<Rightarrow> Throw e
                  | Unmodelled \<Rightarrow> Unmodelled
                  | Return (entries, mapOffset) \<Rightarrow>
                      Return (VObject entries, minus_number mapOffset offset)))
          else if majorType = 7 \<and> info = 27 then
            (case getFloat64 view (plus_number offset (Ix 1)) of
               Throw e \<Rightarrow> Throw e
             | Unmodelled \<Rightarrow> Unmodelled
             | Return float \<Rightarrow> Return (VNum float, Ix 9))
          else Throw (Unsupported majorType))"
| "decodeArray view n arrayOffset array =
     (if n = 0 then Return (array, arrayOffset)
      else
        (case decodeItem view arrayOffset of
           Throw e \<Rightarrow> Throw e
         | Unmodelled \<Rightarrow> Unmodelled
         | Return (item, used) \<Rightarrow>
             decodeArray view (n - 1) (plus_number arrayOffset used) (array @ [item])))"
| "decodeMap view n mapOffset entries =
     (if n = 0 then Return (entries, mapOffset)
      else
        (case decodeItem view mapOffset of
           Throw e \<Rightarrow> Throw e
         | Unmodelled \<Rightarrow> Unmodelled
         | Return (key, keyUsed) \<Rightarrow>
            (case decodeItem view (plus_number mapOffset keyUsed) of
               Throw e \<Rightarrow> Throw e
             | Unmodelled \<Rightarrow> Unmodelled
             | Return (v, valUsed) \<Rightarrow>
                (case propertyKey key of
                   None \<Rightarrow> Unmodelled
                 | Some k \<Rightarrow>
                     decodeMap view (n - 1)
                       (plus_number (plus_number mapOffset keyUsed) valUsed)
                       (assign entries k v)))))"
  by pat_completeness auto
termination
proof (relation "measures
   [\<lambda>x. case x of
       Inl (view, offset) \<Rightarrow> remaining view offset
     | Inr (Inl (view, n, offset, acc)) \<Rightarrow> remaining view offset
     | Inr (Inr (view, n, offset, acc)) \<Rightarrow> remaining view offset,
    \<lambda>x. case x of Inl _ \<Rightarrow> 0 | Inr _ \<Rightarrow> 1,
    \<lambda>x. case x of
       Inl _ \<Rightarrow> 0
     | Inr (Inl (view, n, offset, acc)) \<Rightarrow> n
     | Inr (Inr (view, n, offset, acc)) \<Rightarrow> n]", goal_cases)
  case 1
  show ?case by simp
next
  case (2 view offset h majorType info v bytesUsed off)
  then show ?case
    using decodeHead_Head_bound [of view off majorType info v bytesUsed]
    by (auto simp add: remaining_def)
next
  case (3 view offset h majorType info v bytesUsed off)
  then show ?case
    using decodeHead_Head_bound [of view off majorType info v bytesUsed]
    by (auto simp add: remaining_def)
next
  case 4
  then show ?case by simp
next
  case (5 view n arrayOffset array r item used)
  then show ?case
    by (cases arrayOffset; cases used) (auto simp add: remaining_def)
next
  case 6
  then show ?case by simp
next
  case (7 view n mapOffset entries r key keyUsed)
  then show ?case
    by (cases mapOffset; cases keyUsed) (auto simp add: remaining_def)
next
  case (8 view n mapOffset entries r key keyUsed r2 v valUsed k)
  then show ?case
    by (cases mapOffset; cases keyUsed; cases valUsed) (auto simp add: remaining_def)
qed

declare decodeItem.simps [simp del] decodeArray.simps [simp del] decodeMap.simps [simp del]

text \<open>
  \<open>decode(data)\<close>: a \<open>DataView\<close> on the bytes of \<open>data\<close> (its constructor checks that the window
  lies in the buffer, which holds for every typed array), then \<open>decodeItem(view, 0)\<close>.
\<close>

definition decode :: "dataview \<Rightarrow> val completion" where
  "decode data =
     (if byteOffset data + byteLength data \<le> length (buffer data) then
        (case decodeItem data (Ix 0) of
           Return (v, used) \<Rightarrow> Return v
         | Throw e \<Rightarrow> Throw e
         | Unmodelled \<Rightarrow> Unmodelled)
      else Throw RangeError)"
subsection \<open>The width scheme, in the specification's words\<close>

text \<open>
  The four defined widths of a length descriptor (0, 1, 2 or 4 bytes after the initial
  byte), what each can hold, and the form of an unsigned integer at a given width: the
  value itself in the initial byte at width 0 (major type 0 contributes nothing to the
  initial byte), else the additional information 24, 25 or 26 followed by the value in
  big-endian order.
\<close>

definition defined_widths :: "nat list" where
  "defined_widths = [0, 1, 2, 4]"

definition width_holds :: "nat \<Rightarrow> int \<Rightarrow> bool" where
  "width_holds w n = (if w = 0 then n < 24 else n < 2 ^ (8 * w))"

definition big_endian :: "nat \<Rightarrow> int \<Rightarrow> byte list" where
  "big_endian w n = map (\<lambda>i. of_int ((n div 256 ^ (w - 1 - i)) mod 256)) [0..<w]"

definition width_form :: "nat \<Rightarrow> int \<Rightarrow> byte list" where
  "width_form w n =
     (if w = 0 then [of_int n]
      else (if w = 1 then 24 else if w = 2 then 25 else 26) # big_endian w n)"


section \<open>The line-oriented serial core (class WebSerialCore)\<close>

text \<open>
  JavaScript runs one event at a time: a call from outside, the arrival of a chunk or the
  firing of a timer runs to its end (or to its next \<open>await\<close>) before the next event starts.
  The model therefore is a state and one function per event.  A promise is named by a
  number; \<open>Pending\<close> promises are settled at most once, and settling a settled promise does
  nothing.  A timer is the pair of its delay in milliseconds and the promise whose
  callback it holds; when and whether it fires is the runtime's choice of event.
\<close>

datatype 'a promise = Pending | Resolved 'a | Rejected exn

definition settle :: "(nat \<Rightarrow> 'a promise) \<Rightarrow> nat \<Rightarrow> 'a promise \<Rightarrow> (nat \<Rightarrow> 'a promise)" where
  "settle ps n outcome = (if ps n = Pending then ps(n := outcome) else ps)"

text \<open>\<open>Array.prototype.indexOf\<close> (\<open>-1\<close> when absent) and \<open>splice(index, 1)\<close>.\<close>

fun indexOf :: "'a list \<Rightarrow> 'a \<Rightarrow> int" where
  "indexOf [] x = - 1"
| "indexOf (y # ys) x =
     (if y = x then 0 else (let i = indexOf ys x in if i < 0 then - 1 else i + 1))"

definition splice1 :: "'a list \<Rightarrow> int \<Rightarrow> 'a list" where
  "splice1 xs index = take (nat index) xs @ drop (nat index + 1) xs"

text \<open>
  The fields of the class, and with them what the runtime holds for it: the lines handed
  to the writer, whether \<open>writer.write\<close> rejects (and with what), the promises returned by
  \<open>sendCommand\<close> and the pending timers.  A resolver in \<open>responseResolvers\<close> is the \<open>resolve\<close>
  function of the promise of that number.
\<close>

record WebSerialCore =
  ws_connected :: bool
  ws_writer :: bool
  ws_buffer :: string
  responseResolvers :: "nat list"
  ws_written :: "string list"
  ws_writeError :: "exn option"
  ws_promises :: "nat \<Rightarrow> string promise"
  ws_timers :: "(nat \<times> nat) list"
  ws_nextPromise :: nat

datatype core_error = NotConnected | WriteFailed exn

text \<open>
  \<open>sendCommand(command)\<close>: the connection test (its error message is not ASCII; the model
  names the error \<open>NotConnected\<close>), the write, and then the promise whose executor queues
  \<open>resolve\<close> and starts the 5000 ms timer.  The function covers a call during whose \<open>await\<close>
  of the write no other event runs.
\<close>

definition sendCommand :: "WebSerialCore \<Rightarrow> string \<Rightarrow> (core_error + nat) \<times> WebSerialCore" where
  "sendCommand st command =
     (if \<not> ws_connected st \<or> \<not> ws_writer st then (Inl NotConnected, st)
      else
        (case ws_writeError st of
           Some e \<Rightarrow> (Inl (WriteFailed e), st)
         | None \<Rightarrow>
            (let st1 = st\<lparr>ws_written := ws_written st @ [command @ [CHR 0x0A]]\<rparr>;
                 resolve = ws_nextPromise st1;
                 st2 = st1\<lparr>ws_promises := (ws_promises st1)(resolve := Pending),
                          ws_nextPromise := resolve + 1\<rparr>;
                 st3 = st2\<lparr>responseResolvers := responseResolvers st2 @ [resolve]\<rparr>;
                 st4 = st3\<lparr>ws_timers := ws_timers st3 @ [(5000, resolve)]\<rparr>
             in (Inr resolve, st4))))"

text \<open>The timer's callback, run when the timer of promise \<open>resolve\<close> fires.\<close>

definition sendCommand_timeout :: "WebSerialCore \<Rightarrow> nat \<Rightarrow> WebSerialCore" where
  "sendCommand_timeout st resolve =
     (let st1 = st\<lparr>ws_timers := filter (\<lambda>t. snd t \<noteq> resolve) (ws_timers st)\<rparr>;
          index = indexOf (responseResolvers st1) resolve
      in if index > - 1 then
           st1\<lparr>responseResolvers := splice1 (responseResolvers st1) index,
               ws_promises := settle (ws_promises st1) resolve (Resolved ''TIMEOUT'')\<rparr>
         else st1)"

text \<open>\<open>handleResponse(line)\<close>: the first queued resolver, if any, is shifted off and called.\<close>

definition handleResponse :: "WebSerialCore \<Rightarrow> string \<Rightarrow> WebSerialCore" where
  "handleResponse st line =
     (if length (responseResolvers st) > 0 then
        (let resolver = hd (responseResolvers st);
             st1 = st\<lparr>responseResolvers := tl (responseResolvers st)\<rparr>
         in st1\<lparr>ws_promises := settle (ws_promises st1) resolver (Resolved line)\<rparr>)
      else st)"

text \<open>
  \<open>String.prototype.split('\n')\<close> (never empty: the text after the last newline is the last
  element), and the test \<open>line.trim()\<close>, true when a character other than white space is
  left (white space is taken to be the ASCII white space characters).
\<close>

fun split_lines :: "string \<Rightarrow> string list" where
  "split_lines [] = [[]]"
| "split_lines (c # cs) =
     (if c = CHR 0x0A then [] # split_lines cs
      else (case split_lines cs of l # ls \<Rightarrow> (c # l) # ls | [] \<Rightarrow> [[c]]))"

definition trim_truthy :: "string \<Rightarrow> bool" where
  "trim_truthy line =
     list_ex (\<lambda>c. c \<notin> set [CHR 0x20, CHR 0x09, CHR 0x0A, CHR 0x0B, CHR 0x0C, CHR 0x0D]) line"

fun handleLines :: "WebSerialCore \<Rightarrow> string list \<Rightarrow> WebSerialCore" where
  "handleLines st [] = st"
| "handleLines st (line # lines) =
     handleLines (if trim_truthy line then handleResponse st line else st) lines"

definition processBuffer :: "WebSerialCore \<Rightarrow> WebSerialCore" where
  "processBuffer st =
     (let lines = split_lines (ws_buffer st);
          st1 = st\<lparr>ws_buffer := last lines\<rparr>
      in handleLines st1 (butlast lines))"

text \<open>One turn of the read loop of \<open>startReading\<close>, for a chunk decoded to \<open>text\<close>.\<close>

definition receiveText :: "WebSerialCore \<Rightarrow> string \<Rightarrow> WebSerialCore" where
  "receiveText st text = processBuffer (st\<lparr>ws_buffer := ws_buffer st @ text\<rparr>)"

text \<open>The object made by the constructor, and the same after a successful \<open>connect\<close>.\<close>

definition WebSerialCore_new :: WebSerialCore where
  "WebSerialCore_new =
     \<lparr>ws_connected = False, ws_writer = False, ws_buffer = [], responseResolvers = [],
      ws_written = [], ws_writeError = None, ws_promises = (\<lambda>n. Pending), ws_timers = [],
      ws_nextPromise = 0\<rparr>"

definition WebSerialCore_connected :: WebSerialCore where
  "WebSerialCore_connected = WebSerialCore_new\<lparr>ws_connected := True, ws_writer := True\<rparr>"

section \<open>The request client (class VelocityDriveClient)\<close>

subsection \<open>What the client leaves to the protocol module\<close>

text \<open>
  The client calls the framing, message and value codecs of the protocol module
  (\<open>MUP1Protocol\<close>, \<open>CoAPMessage\<close>, \<open>CBORCodec\<close>), whose code is not part of the sources at hand.
  They are parameters of the model: \<open>'p\<close> is the state of the protocol object (its receive
  buffer, its message-id counter), and a decoder may throw.
\<close>

record coap =
  messageId :: nat
  code :: nat
  payload :: "byte list option"

record 'p protocol_module =
  createPingMessage :: "'p \<Rightarrow> byte list \<times> 'p"
  parsePingResponse :: "byte list \<Rightarrow> val option"
  createCoAPMessage :: "string \<Rightarrow> string \<Rightarrow> byte list option \<Rightarrow> 'p \<Rightarrow> byte list \<times> 'p"
  processData :: "byte list \<Rightarrow> 'p \<Rightarrow> byte list list completion \<times> 'p"
  CoAPMessage_decode :: "byte list \<Rightarrow> coap option completion"
  CBORCodec_encode :: "val \<Rightarrow> byte list"
  CBORCodec_decode :: "byte list \<Rightarrow> val completion"

subsection \<open>State\<close>

text \<open>
  A listener is either the \<open>handler\<close> closure made by \<open>yangGet\<close>, \<open>yangSet\<close> or \<open>yangDelete\<close> for
  the promise of that number, or a callback registered from outside, which the model only
  records as called (it is taken not to throw and not to call back into the client).
\<close>

datatype callback = Handler nat | External nat

datatype direction = Send | Receive

datatype event_data =
    NoData
  | RawData direction "byte list"
  | DeviceDiscovered val
  | YangCatalogReceived string
  | DataReceived nat nat val
  | ErrorEvent exn

text \<open>
  The fields of the class (\<open>port\<close> and \<open>reader\<close> are the transport's and appear as the inputs
  of \<open>readLoop\<close>; \<open>responseCallbacks\<close> is created empty and never used), and what the
  runtime holds: the chunks handed to \<open>writer.write\<close>, whether that write rejects, the
  promises, the pending timers (delay in ms and the promise whose \<open>reject\<close> the callback
  calls) and the calls of outside listeners.
\<close>

record 'p client =
  connected :: bool
  writer :: bool
  protocol :: 'p
  deviceInfo :: "val option"
  yangCatalogId :: "string option"
  eventListeners :: "string \<Rightarrow> callback list option"
  written :: "byte list list"
  writeError :: "exn option"
  promises :: "nat \<Rightarrow> event_data promise"
  timers :: "(nat \<times> nat) list"
  nextPromise :: nat
  calls :: "(nat \<times> string \<times> event_data) list"

subsection \<open>Events\<close>

definition on :: "'p client \<Rightarrow> string \<Rightarrow> callback \<Rightarrow> 'p client" where
  "on st event callback =
     (let st1 = (if eventListeners st event = None
                 then st\<lparr>eventListeners := (eventListeners st)(event \<mapsto> [])\<rparr> else st)
      in st1\<lparr>eventListeners :=
               (eventListeners st1)(event \<mapsto> the (eventListeners st1 event) @ [callback])\<rparr>)"

definition off :: "'p client \<Rightarrow> string \<Rightarrow> callback \<Rightarrow> 'p client" where
  "off st event callback =
     (case eventListeners st event of
        None \<Rightarrow> st
      | Some listeners \<Rightarrow>
          (let index = indexOf listeners callback in
           if index > - 1 then
             st\<lparr>eventListeners := (eventListeners st)(event \<mapsto> splice1 listeners index)\<rparr>
           else st))"

text \<open>
  Calling a listener.  The handler of a request: \<open>clearTimeout(timeout)\<close>,
  \<open>this.off('dataReceived', handler)\<close>, \<open>resolve(data)\<close>.
\<close>

definition call_listener :: "'p client \<Rightarrow> string \<Rightarrow> callback \<Rightarrow> event_data \<Rightarrow> 'p client" where
  "call_listener st event callback data =
     (case callback of
        Handler n \<Rightarrow>
          (let st1 = st\<lparr>timers := filter (\<lambda>t. snd t \<noteq> n) (timers st)\<rparr>;
               st2 = off st1 ''dataReceived'' (Handler n)
           in st2\<lparr>promises := settle (promises st2) n (Resolved data)\<rparr>)
      | External n \<Rightarrow> st\<lparr>calls := calls st @ [(n, event, data)]\<rparr>)"

text \<open>
  \<open>emit(event, data)\<close> is \<open>forEach\<close> over the array of the event's listeners.  \<open>forEach\<close> fixes
  the number of indices to visit when it starts, visits them in order and skips an index
  that is no longer in the array; the array it reads is the one \<open>off\<close> splices.
  \<open>forEach_from st event data k n\<close> visits the \<open>n\<close> indices from \<open>k\<close> on.
\<close>

fun forEach_from :: "'p client \<Rightarrow> string \<Rightarrow> event_data \<Rightarrow> nat \<Rightarrow> nat \<Rightarrow> 'p client" where
  "forEach_from st event data k 0 = st"
| "forEach_from st event data k (Suc n) =
     (let listeners = (case eventListeners st event of None \<Rightarrow> [] | Some l \<Rightarrow> l) in
      if k < length listeners
      then forEach_from (call_listener st event (listeners ! k) data) event data (k + 1) n
      else forEach_from st event data (k + 1) n)"

definition emit :: "'p client \<Rightarrow> string \<Rightarrow> event_data \<Rightarrow> 'p client" where
  "emit st event data =
     (case eventListeners st event of
        None \<Rightarrow> st
      | Some listeners \<Rightarrow> forEach_from st event data 0 (length listeners))"

subsection \<open>Sending\<close>

definition sendRaw :: "'p client \<Rightarrow> byte list \<Rightarrow> unit completion \<times> 'p client" where
  "sendRaw st data =
     (if \<not> connected st \<or> \<not> writer st then (Throw (Error ''Not connected to device''), st)
      else
        (case writeError st of
           None \<Rightarrow> (Return (), st\<lparr>written := written st @ [data]\<rparr>)
         | Some error \<Rightarrow> (Throw error, emit st ''error'' (ErrorEvent error))))"

text \<open>
  The promise at the end of \<open>yangGet\<close>, \<open>yangSet\<close> and \<open>yangDelete\<close> (the same lines in all
  three): a timer of 10000 ms whose callback rejects with \<open>Request timeout\<close>, and a handler
  registered for \<open>dataReceived\<close>.  The result is the number of the promise.
\<close>

definition awaitResponse :: "'p client \<Rightarrow> nat \<times> 'p client" where
  "awaitResponse st =
     (let n = nextPromise st;
          st1 = st\<lparr>promises := (promises st)(n := Pending), nextPromise := n + 1\<rparr>;
          st2 = st1\<lparr>timers := timers st1 @ [(10000, n)]\<rparr>
      in (n, on st2 ''dataReceived'' (Handler n)))"

text \<open>The callback of that timer: \<open>reject(new Error('Request timeout'))\<close>, and nothing else.\<close>

definition request_timeout :: "'p client \<Rightarrow> nat \<Rightarrow> 'p client" where
  "request_timeout st n =
     st\<lparr>timers := filter (\<lambda>t. snd t \<noteq> n) (timers st),
        promises := settle (promises st) n (Rejected (Error ''Request timeout''))\<rparr>"

text \<open>\<open>!this.yangCatalogId\<close>: the field is \<open>null\<close> or the empty string.\<close>

definition falsy :: "string option \<Rightarrow> bool" where
  "falsy s = (s = None \<or> s = Some [])"

text \<open>
  The three requests.  Each covers a call during whose \<open>await\<close> of \<open>sendRaw\<close> no other event
  runs.  \<open>Throw\<close> is the rejection of the promise of the \<open>async\<close> function itself.
\<close>

definition yangGet :: "'p protocol_module \<Rightarrow> 'p client \<Rightarrow> string \<Rightarrow> nat completion \<times> 'p client" where
  "yangGet api st path =
     (if falsy (yangCatalogId st) then (Throw (Error ''YANG catalog not loaded''), st)
      else
        (let (coapMessage, p) = createCoAPMessage api ''GET'' path None (protocol st) in
         case sendRaw (st\<lparr>protocol := p\<rparr>) coapMessage of
           (Throw e, st1) \<Rightarrow> (Throw e, st1)
         | (Unmodelled, st1) \<Rightarrow> (Unmodelled, st1)
         | (Return u, st1) \<Rightarrow> (let (n, st2) = awaitResponse st1 in (Return n, st2))))"

definition yangSet ::
  "'p protocol_module \<Rightarrow> 'p client \<Rightarrow> string \<Rightarrow> val \<Rightarrow> nat completion \<times> 'p client" where
  "yangSet api st path v =
     (if falsy (yangCatalogId st) then (Throw (Error ''YANG catalog not loaded''), st)
      else
        (let encoded = CBORCodec_encode api v;
             (coapMessage, p) = createCoAPMessage api ''PUT'' path (Some encoded) (protocol st) in
         case sendRaw (st\<lparr>protocol := p\<rparr>) coapMessage of
           (Throw e, st1) \<Rightarrow> (Throw e, st1)
         | (Unmodelled, st1) \<Rightarrow> (Unmodelled, st1)
         | (Return u, st1) \<Rightarrow> (let (n, st2) = awaitResponse st1 in (Return n, st2))))"

definition yangDelete :: "'p protocol_module \<Rightarrow> 'p client \<Rightarrow> string \<Rightarrow> nat completion \<times> 'p client" where
  "yangDelete api st path =
     (if falsy (yangCatalogId st) then (Throw (Error ''YANG catalog not loaded''), st)
      else
        (let (coapMessage, p) = createCoAPMessage api ''DELETE'' path None (protocol st) in
         case sendRaw (st\<lparr>protocol := p\<rparr>) coapMessage of
           (Throw e, st1) \<Rightarrow> (Throw e, st1)
         | (Unmodelled, st1) \<Rightarrow> (Unmodelled, st1)
         | (Return u, st1) \<Rightarrow> (let (n, st2) = awaitResponse st1 in (Return n, st2))))"

text \<open>
  The three requests under one name, for statements that hold of each of them, and the
  listeners registered for \<open>dataReceived\<close> (none when the event has no entry in the map).
\<close>

datatype request = YangGet string | YangSet string val | YangDelete string

definition issue ::
  "'p protocol_module \<Rightarrow> 'p client \<Rightarrow> request \<Rightarrow> nat completion \<times> 'p client" where
  "issue api st r =
     (case r of
        YangGet path \<Rightarrow> yangGet api st path
      | YangSet path v \<Rightarrow> yangSet api st path v
      | YangDelete path \<Rightarrow> yangDelete api st path)"

definition dataReceived_listeners :: "'p client \<Rightarrow> callback list" where
  "dataReceived_listeners st =
     (case eventListeners st ''dataReceived'' of None \<Rightarrow> [] | Some listeners \<Rightarrow> listeners)"

definition getYangCatalog :: "'p protocol_module \<Rightarrow> 'p client \<Rightarrow> unit completion \<times> 'p client" where
  "getYangCatalog api st =
     (let (coapMessage, p) =
            createCoAPMessage api ''FETCH''
              ''/ietf-constrained-yang-library:yang-library/checksum'' None (protocol st) in
      case sendRaw (st\<lparr>protocol := p\<rparr>) coapMessage of
        (Throw e, st1) \<Rightarrow> (Throw e, st1)
      | (Unmodelled, st1) \<Rightarrow> (Unmodelled, st1)
      | (Return u, st1) \<Rightarrow> (Return (), emit st1 ''rawData'' (RawData Send coapMessage)))"

subsection \<open>Receiving\<close>

text \<open>
  \<open>isYangCatalogResponse(data)\<close>: \<open>data\<close> is truthy, is an object, and has a property
  \<open>checksum\<close> (for the values of the codec: a plain object with that key).
  \<open>extractCatalogId(payload)\<close>: the bytes in hexadecimal, two lower-case digits each.
\<close>

definition isYangCatalogResponse :: "val \<Rightarrow> bool" where
  "isYangCatalogResponse data =
     (case data of VObject entries \<Rightarrow> ''checksum'' \<in> set (map fst entries) | _ \<Rightarrow> False)"

definition hex_digit :: "nat \<Rightarrow> char" where
  "hex_digit n = ''0123456789abcdef'' ! n"

definition extractCatalogId :: "byte list \<Rightarrow> string" where
  "extractCatalogId bytes =
     concat (map (\<lambda>b. [hex_digit (unat b div 16), hex_digit (unat b mod 16)]) bytes)"

definition handleCoAPFrame ::
  "'p protocol_module \<Rightarrow> 'p client \<Rightarrow> byte list \<Rightarrow> unit completion \<times> 'p client" where
  "handleCoAPFrame api st frame =
     (case CoAPMessage_decode api frame of
        Throw e \<Rightarrow> (Throw e, st)
      | Unmodelled \<Rightarrow> (Unmodelled, st)
      | Return None \<Rightarrow> (Return (), st)
      | Return (Some coap) \<Rightarrow>
         (case payload coap of
            None \<Rightarrow> (Return (), st)
          | Some bytes \<Rightarrow>
             (case CBORCodec_decode api bytes of
                Throw e \<Rightarrow> (Throw e, st)
              | Unmodelled \<Rightarrow> (Unmodelled, st)
              | Return decoded \<Rightarrow>
                  if isYangCatalogResponse decoded then
                    (let st1 = st\<lparr>yangCatalogId := Some (extractCatalogId bytes)\<rparr> in
                     (Return (),
                      emit st1 ''yangCatalogReceived''
                        (YangCatalogReceived (the (yangCatalogId st1)))))
                  else
                    (Return (),
                     emit st ''dataReceived''
                       (DataReceived (messageId coap) (code coap) decoded)))))"

text \<open>The loop \<open>for (const frame of frames) await this.handleCoAPFrame(frame)\<close>.\<close>

fun handleFrames ::
  "'p protocol_module \<Rightarrow> 'p client \<Rightarrow> byte list list \<Rightarrow> unit completion \<times> 'p client" where
  "handleFrames api st [] = (Return (), st)"
| "handleFrames api st (frame # frames) =
     (case handleCoAPFrame api st frame of
        (Return u, st1) \<Rightarrow> handleFrames api st1 frames
      | (Throw e, st1) \<Rightarrow> (Throw e, st1)
      | (Unmodelled, st1) \<Rightarrow> (Unmodelled, st1))"

text \<open>\<open>text.includes('VelocitySP-v')\<close> on the decoded chunk: the ASCII bytes of the pattern occur.\<close>

fun includes_sub :: "'a list \<Rightarrow> 'a list \<Rightarrow> bool" where
  "includes_sub [] pat = (pat = [])"
| "includes_sub (x # xs) pat = (take (length pat) (x # xs) = pat \<or> includes_sub xs pat)"

definition handleData ::
  "'p protocol_module \<Rightarrow> 'p client \<Rightarrow> byte list \<Rightarrow> unit completion \<times> 'p client" where
  "handleData api st data =
     (let st1 = emit st ''rawData'' (RawData Receive data) in
      if includes_sub data (map (\<lambda>c. of_char c) ''VelocitySP-v'') then
        (case parsePingResponse api data of
           Some info \<Rightarrow>
             getYangCatalog api
               (emit (st1\<lparr>deviceInfo := Some info\<rparr>) ''deviceDiscovered'' (DeviceDiscovered info))
         | None \<Rightarrow> (Return (), st1))
      else
        (case processData api data (protocol st1) of
           (Return frames, p) \<Rightarrow> handleFrames api (st1\<lparr>protocol := p\<rparr>) frames
         | (Throw e, p) \<Rightarrow> (Throw e, st1\<lparr>protocol := p\<rparr>)
         | (Unmodelled, p) \<Rightarrow> (Unmodelled, st1\<lparr>protocol := p\<rparr>)))"

text \<open>
  \<open>readLoop\<close>, over the results of the successive \<open>reader.read()\<close> calls: a chunk, the end of
  the stream (with whether \<open>port.readable\<close> is still set afterwards), or a failed read.
  \<open>readLoop api st readable results\<close> is the outer \<open>while (this.port.readable && this.connected)\<close>,
  \<open>readInner\<close> the \<open>while (true)\<close> inside its \<open>try\<close>.  The \<open>catch\<close> block emits \<open>error\<close> while
  connected and leaves the outer loop with \<open>break\<close>; it catches what \<open>handleData\<close> throws as
  well as a failed read.  The result says whether the loop is still reading when the given
  results are used up or has ended, and how many read results it has taken.
\<close>

datatype read_result = Chunk "byte list" | Done bool | ReadError exn

datatype loop_status = Reading | Ended

fun readLoop ::
  "'p protocol_module \<Rightarrow> 'p client \<Rightarrow> bool \<Rightarrow> read_result list
     \<Rightarrow> (loop_status \<times> nat) \<times> 'p client"
  and readInner ::
  "'p protocol_module \<Rightarrow> 'p client \<Rightarrow> read_result list \<Rightarrow> (loop_status \<times> nat) \<times> 'p client"
where
  "readLoop api st readable results =
     (if readable \<and> connected st then readInner api st results else ((Ended, 0), st))"
| "readInner api st [] = ((Reading, 0), st)"
| "readInner api st (r # results) =
     (case r of
        Chunk data \<Rightarrow>
          (case handleData api st data of
             (Return u, st1) \<Rightarrow>
               (let ((status, taken), st2) = readInner api st1 results
                in ((status, taken + 1), st2))
           | (Throw error, st1) \<Rightarrow>
               ((Ended, 1), if connected st1 then emit st1 ''error'' (ErrorEvent error) else st1)
           | (Unmodelled, st1) \<Rightarrow> ((Ended, 1), st1))
      | Done readable \<Rightarrow>
          (let ((status, taken), st2) = readLoop api st readable results
           in ((status, taken + 1), st2))
      | ReadError error \<Rightarrow>
          ((Ended, 1), if connected st then emit st ''error'' (ErrorEvent error) else st))"

text \<open>The object made by the constructor.\<close>

definition client_new :: "'p \<Rightarrow> 'p client" where
  "client_new p =
     \<lparr>connected = False, writer = False, protocol = p, deviceInfo = None,
      yangCatalogId = None, eventListeners = Map.empty, written = [], writeError = None,
      promises = (\<lambda>n. Pending), timers = [], nextPromise = 0, calls = []\<rparr>"

text \<open>
  The \<open>dataReceived\<close> event that a frame gives rise to in \<open>handleCoAPFrame\<close>, if it does: the
  frame decodes to a message with a payload, the payload decodes to a value, and the value
  is not a catalog response.
\<close>

definition data_response :: "'p protocol_module \<Rightarrow> byte list \<Rightarrow> event_data option" where
  "data_response api frame =
     (case CoAPMessage_decode api frame of
        Return (Some coap) \<Rightarrow>
          (case payload coap of
             Some bytes \<Rightarrow>
               (case CBORCodec_decode api bytes of
                  Return decoded \<Rightarrow>
                    if isYangCatalogResponse decoded then None
                    else Some (DataReceived (messageId coap) (code coap) decoded)
                | _ \<Rightarrow> None)
           | None \<Rightarrow> None)
      | _ \<Rightarrow> None)"

subsection \<open>A protocol module and a session to run the client on\<close>

text \<open>
  The statements about the client below hold for every protocol module.  To run the
  client at concrete inputs, this stand-in is used: its state is the next message id, a
  message is the id byte followed by the bytes of the path and of the payload, each chunk
  is one frame, a frame is the id byte followed by the payload (response code 69), and
  the payload is read by the value codec of the previous section.
\<close>

definition demo_module :: "nat protocol_module" where
  "demo_module =
     \<lparr>createPingMessage = (\<lambda>p. ([0x70], p)),
      parsePingResponse = (\<lambda>data. None),
      createCoAPMessage =
        (\<lambda>method path body p.
           (of_nat p # map (\<lambda>c. of_char c) path @ (case body of None \<Rightarrow> [] | Some bs \<Rightarrow> bs),
            p + 1)),
      processData = (\<lambda>data p. (Return [data], p)),
      CoAPMessage_decode =
        (\<lambda>frame. case frame of
            [] \<Rightarrow> Return None
          | b # rest \<Rightarrow>
              Return (Some \<lparr>messageId = unat b, code = 69,
                             payload = (if rest = [] then None else Some rest)\<rparr>)),
      CBORCodec_encode = encode,
      CBORCodec_decode = (\<lambda>bytes. decode (Uint8Array_from bytes))\<rparr>"

text \<open>
  A session that is connected and whose catalog checksum has been received, with no
  listener registered; and the same with one outside listener for \<open>dataReceived\<close>.
\<close>

definition ready_client :: "nat client" where
  "ready_client =
     (client_new 0)\<lparr>connected := True, writer := True,
                    yangCatalogId := Some ''5151bae07677b1501f9cf52637f2a38f''\<rparr>"

definition listening_client :: "nat client" where
  "listening_client = on ready_client ''dataReceived'' (External 0)"

text \<open>
  Two requests outstanding on that session: \<open>yangGet('/a')\<close>, then \<open>yangGet('/b')\<close>.  The
  stand-in module gives the first message the id 0 and the second the id 1.  Then the
  frame with id 1 arrives, and after it the frame with id 0.
\<close>

definition one_request :: "nat client" where
  "one_request = snd (yangGet demo_module ready_client ''/a'')"

definition two_requests :: "nat client" where
  "two_requests = snd (yangGet demo_module one_request ''/b'')"

definition after_first_frame :: "nat client" where
  "after_first_frame = snd (handleCoAPFrame demo_module two_requests [0x01, 0x02])"

definition after_second_frame :: "nat client" where
  "after_second_frame = snd (handleCoAPFrame demo_module after_first_frame [0x00, 0x01])"

text \<open>
  One request whose timer fires with no response; then a second request, and the frame
  that answers it.
\<close>

definition timed_out :: "nat client" where
  "timed_out = request_timeout one_request 0"

definition timed_out_then_request :: "nat client" where
  "timed_out_then_request = snd (yangGet demo_module timed_out ''/b'')"

definition timed_out_then_response :: "nat client" where
  "timed_out_then_response =
     snd (handleCoAPFrame demo_module timed_out_then_request [0x01, 0x02])"
section \<open>Properties of the value codec\<close>

subsection \<open>Bytes and 32-bit operators\<close>

lemma byte_of_int_mod: "(of_int (n mod 256) :: byte) = of_int n"
  by (simp add: word_of_int_eq_iff take_bit_eq_mod)

lemma ToUint8_of_int: "ToUint8 n = of_int n"
  by (simp add: ToUint8_def byte_of_int_mod)

lemma be_value_snoc: "be_value (bs @ [b]) = 256 * be_value bs + unat b"
  by (simp add: be_value_def)

lemma be_value_digits:
  "be_value (map (\<lambda>i. of_nat ((x div 256 ^ (w - 1 - i)) mod 256)) [0..<w]) = x mod 256 ^ w"
proof (induction w arbitrary: x)
  case 0
  then show ?case by (simp add: be_value_def)
next
  case (Suc w)
  let ?f = "\<lambda>i. (of_nat ((x div 256 ^ (Suc w - 1 - i)) mod 256) :: byte)"
  let ?g = "\<lambda>i. (of_nat (((x div 256) div 256 ^ (w - 1 - i)) mod 256) :: byte)"
  have fg: "map ?f [0..<w] = map ?g [0..<w]"
  proof (rule map_cong [OF refl])
    fix i assume "i \<in> set [0..<w]"
    then have "Suc w - 1 - i = Suc (w - 1 - i)" by auto
    then show "?f i = ?g i"
      by (simp add: div_mult2_eq)
  qed
  have "map ?f [0..<Suc w] = map ?f [0..<w] @ [?f w]" by simp
  then have "be_value (map ?f [0..<Suc w]) = 256 * be_value (map ?g [0..<w]) + unat (?f w)"
    by (simp only: fg be_value_snoc)
  also have "be_value (map ?g [0..<w]) = (x div 256) mod 256 ^ w"
    by (rule Suc.IH)
  also have "unat (?f w) = x mod 256"
    by (simp add: unat_of_nat)
  also have "256 * ((x div 256) mod 256 ^ w) + x mod 256 = x mod 256 ^ Suc w"
    by (simp add: mod_mult2_eq)
  finally show ?case .
qed

lemma ToUint8_float64_bytes:
  "map ToUint8 (float64_bytes d)
     = map (\<lambda>i. of_nat ((unat d div 256 ^ (8 - 1 - i)) mod 256)) [0..<8]"
proof -
  have p: "(2::nat) ^ (8 * k) = 256 ^ k" for k
    by (simp add: power_mult)
  have "ToUint8 (int ((unat d div 2 ^ (8 * (7 - i))) mod 256))
      = of_nat ((unat d div 256 ^ (8 - 1 - i)) mod 256)" for i
    unfolding ToUint8_of_int p by simp
  then show ?thesis
    unfolding float64_bytes_def map_map o_def by simp
qed

lemma be_value_float64_bytes: "be_value (map ToUint8 (float64_bytes d)) = unat d"
proof -
  have "unat d < 2 ^ 64"
    using unsigned_less [of d, where 'a = nat] by simp
  then have "unat d mod 256 ^ 8 = unat d" by simp
  then show ?thesis
    unfolding ToUint8_float64_bytes be_value_digits .
qed

lemma ToInt32_small: "0 \<le> n \<Longrightarrow> n < 2 ^ 31 \<Longrightarrow> ToInt32 n = n"
  by (simp add: ToInt32_def)

lemma ToInt32_mod256: "ToInt32 n mod 256 = n mod 256"
proof -
  have "(n + 2 ^ 31) mod 2 ^ 32 mod 256 = (n + 2 ^ 31) mod 256"
    by (rule mod_mod_cancel) simp
  then show ?thesis
    unfolding ToInt32_def by (metis (no_types) mod_diff_left_eq add_diff_cancel_right')
qed

lemma js_shl_zero: "js_shl 0 5 = 0"
  by (simp add: js_shl_def ToInt32_def)

lemma js_or_zero: "0 \<le> v \<Longrightarrow> v < 2 ^ 31 \<Longrightarrow> js_or 0 v = v"
  by (simp add: js_or_def ToInt32_small)

lemma and_255: "(x::int) AND 255 = x mod 256"
proof -
  have "x AND mask 8 = take_bit 8 x" by (simp add: take_bit_eq_mask)
  then show ?thesis by (simp add: take_bit_eq_mod mask_eq_exp_minus_1)
qed

lemma byte_js_and: "(of_int (js_and x 0xFF) :: byte) = of_int (x mod 256)"
proof -
  have "js_and x 0xFF = ToInt32 x mod 256"
    by (simp add: js_and_def ToInt32_small and_255)
  then show ?thesis by (simp add: ToInt32_mod256)
qed

lemma ToInt32_sar_mod256:
  assumes "k \<le> 24"
  shows "drop_bit k (ToInt32 n) mod 256 = (n div 2 ^ k) mod 256"
proof -
  define c where "c = - ((n + 2 ^ 31) div 2 ^ 32)"
  have "(n + 2 ^ 31) mod 2 ^ 32 = (n + 2 ^ 31) - 2 ^ 32 * ((n + 2 ^ 31) div 2 ^ 32)"
    by (simp add: minus_mult_div_eq_mod)
  then have t: "ToInt32 n = n + 2 ^ 32 * c"
    by (simp add: ToInt32_def c_def)
  have "(2::int) ^ 32 = 2 ^ (k + (8 + (24 - k)))" using assms by simp
  also have "\<dots> = 2 ^ k * (2 ^ 8 * 2 ^ (24 - k))" by (simp only: power_add)
  finally have p32: "(2::int) ^ 32 = 2 ^ k * (2 ^ 8 * 2 ^ (24 - k))" .
  have "ToInt32 n = n + 2 ^ k * (2 ^ 8 * 2 ^ (24 - k) * c)"
    unfolding t p32 by (simp only: mult.assoc)
  then have "drop_bit k (ToInt32 n) = n div 2 ^ k + 2 ^ 8 * (2 ^ (24 - k) * c)"
    by (simp only: drop_bit_eq_div) (simp add: mult.assoc)
  then show ?thesis by simp
qed

lemma byte_js_sar: "k \<le> 24 \<Longrightarrow> (of_int (js_sar n k) :: byte) = of_int ((n div 2 ^ k) mod 256)"
proof -
  assume "k \<le> 24"
  then have "js_sar n k mod 256 = (n div 2 ^ k) mod 256"
    by (simp add: js_sar_def ToInt32_sar_mod256)
  then show ?thesis
    by (metis byte_of_int_mod)
qed

lemma byte_js_and_sar:
  "k \<le> 24 \<Longrightarrow> (of_int (js_and (js_sar n k) 0xFF) :: byte) = of_int ((n div 2 ^ k) mod 256)"
  by (simp add: byte_js_and js_sar_def ToInt32_sar_mod256)

lemma encodeUnsigned_major0:
  assumes "0 \<le> n" "n < 2 ^ 32"
  shows "map ToUint8 (encodeUnsigned n 0 []) =
     (if n < 24 then width_form 0 n else if n < 256 then width_form 1 n
      else if n < 65536 then width_form 2 n else width_form 4 n)"
proof -
  have b8: "(of_int (js_sar n 8) :: byte) = of_int ((n div 256) mod 256)"
    using byte_js_sar [of 8 n] by simp
  have b24: "(of_int (js_sar n 24) :: byte) = of_int ((n div 16777216) mod 256)"
    using byte_js_sar [of 24 n] by simp
  have a8: "(of_int (js_and (js_sar n 8) 0xFF) :: byte) = of_int ((n div 256) mod 256)"
    using byte_js_and_sar [of 8 n] by simp
  have a16: "(of_int (js_and (js_sar n 16) 0xFF) :: byte) = of_int ((n div 65536) mod 256)"
    using byte_js_and_sar [of 16 n] by simp
  have a0: "(of_int (js_and n 0xFF) :: byte) = of_int (n mod 256)"
    by (rule byte_js_and)
  show ?thesis
    using assms
    by (simp add: encodeUnsigned_def js_shl_zero js_or_zero ToUint8_of_int
        b8 b24 a0 a8 a16 width_form_def big_endian_def upt_rec byte_of_int_mod)
qed


subsection \<open>Integer encoding\<close>

lemma ilog2_23: "ilog2 23 = 4" by (simp add: ilog2.simps)
lemma ilog2_24: "ilog2 24 = 4" by (simp add: ilog2.simps)
lemma ilog2_256: "ilog2 256 = 8" by (simp add: ilog2.simps)
lemma ilog2_65536: "ilog2 65536 = 16" by (simp add: ilog2.simps)

lemma f64_of_int_23: "f64_of_int 23 = 0x4037000000000000"
  by (simp add: f64_of_int_def ilog2_23)
lemma f64_of_int_24: "f64_of_int 24 = 0x4038000000000000"
  by (simp add: f64_of_int_def ilog2_24)
lemma f64_of_int_256: "f64_of_int 256 = 0x4070000000000000"
  by (simp add: f64_of_int_def ilog2_256)
lemma f64_of_int_65536: "f64_of_int 65536 = 0x40F0000000000000"
  by (simp add: f64_of_int_def ilog2_65536)

text \<open>
  Claim C5 (integer width-minimality).  For every number that is a non-negative integer
  and that some defined width holds (that is, below \<open>2^32\<close>), \<open>encode\<close> yields the form of
  one of the four defined widths, that width holds the value, and no smaller defined
  width does.  In particular 23 is encoded in one
  byte, 24 in the 1-byte form, 256 in the 2-byte form and 65536 in the 4-byte form.
\<close>

theorem encode_integer_width_minimal:
  "(Number_isInteger d \<and> 0 \<le> f64_to_int d \<and>
    (\<exists>w \<in> set defined_widths. width_holds w (f64_to_int d)) \<longrightarrow>
      (\<exists>w \<in> set defined_widths.
         width_holds w (f64_to_int d) \<and>
         (\<forall>w' \<in> set defined_widths. width_holds w' (f64_to_int d) \<longrightarrow> w \<le> w') \<and>
         encode (VNum d) = width_form w (f64_to_int d)))
   \<and> encode (VNum (f64_of_int 23)) = [0x17]
   \<and> encode (VNum (f64_of_int 24)) = [0x18, 0x18]
   \<and> encode (VNum (f64_of_int 256)) = [0x19, 0x01, 0x00]
   \<and> encode (VNum (f64_of_int 65536)) = [0x1A, 0x00, 0x01, 0x00, 0x00]"
proof -
  have general: "\<exists>w \<in> set defined_widths.
         width_holds w n \<and>
         (\<forall>w' \<in> set defined_widths. width_holds w' n \<longrightarrow> w \<le> w') \<and>
         map ToUint8 (encodeUnsigned n 0 []) = width_form w n"
    if "0 \<le> n" "n < 2 ^ 32" for n
  proof -
    consider "n < 24" | "24 \<le> n" "n < 256" | "256 \<le> n" "n < 65536" | "65536 \<le> n"
      by linarith
    then show ?thesis
    proof cases
      case 1
      then show ?thesis
        using encodeUnsigned_major0 [OF that]
        by (intro bexI [of _ 0]) (simp_all add: defined_widths_def width_holds_def)
    next
      case 2
      then show ?thesis
        using encodeUnsigned_major0 [OF that]
        by (intro bexI [of _ 1]) (simp_all add: defined_widths_def width_holds_def)
    next
      case 3
      then show ?thesis
        using encodeUnsigned_major0 [OF that]
        by (intro bexI [of _ 2]) (simp_all add: defined_widths_def width_holds_def)
    next
      case 4
      then show ?thesis
        using encodeUnsigned_major0 [OF that] that
        by (intro bexI [of _ 4]) (simp_all add: defined_widths_def width_holds_def)
    qed
  qed
  have i23: "Number_isInteger (f64_of_int 23) \<and> f64_to_int (f64_of_int 23) = 23"
    unfolding f64_of_int_23
    by (simp add: Number_isInteger_def f64_exponent_def
        f64_fraction_def f64_to_int_def f64_negative_def f64_magnitude_def)
  have i24: "Number_isInteger (f64_of_int 24) \<and> f64_to_int (f64_of_int 24) = 24"
    unfolding f64_of_int_24
    by (simp add: Number_isInteger_def f64_exponent_def
        f64_fraction_def f64_to_int_def f64_negative_def f64_magnitude_def)
  have i256: "Number_isInteger (f64_of_int 256) \<and> f64_to_int (f64_of_int 256) = 256"
    unfolding f64_of_int_256
    by (simp add: Number_isInteger_def f64_exponent_def
        f64_fraction_def f64_to_int_def f64_negative_def f64_magnitude_def)
  have i65536: "Number_isInteger (f64_of_int 65536) \<and> f64_to_int (f64_of_int 65536) = 65536"
    unfolding f64_of_int_65536
    by (simp add: Number_isInteger_def f64_exponent_def
        f64_fraction_def f64_to_int_def f64_negative_def f64_magnitude_def)
  have c23: "encode (VNum (f64_of_int 23)) = [0x17]"
    using encodeUnsigned_major0 [of 23] by (simp add: encode_def i23 width_form_def)
  have c24: "encode (VNum (f64_of_int 24)) = [0x18, 0x18]"
    using encodeUnsigned_major0 [of 24]
    by (simp add: encode_def i24 width_form_def big_endian_def)
  have c256: "encode (VNum (f64_of_int 256)) = [0x19, 0x01, 0x00]"
    using encodeUnsigned_major0 [of 256]
    by (simp add: encode_def i256 width_form_def big_endian_def upt_rec)
  have c65536: "encode (VNum (f64_of_int 65536)) = [0x1A, 0x00, 0x01, 0x00, 0x00]"
    using encodeUnsigned_major0 [of 65536]
    by (simp add: encode_def i65536 width_form_def big_endian_def upt_rec)
  have bound: "n < 2 ^ 32" if "\<exists>w \<in> set defined_widths. width_holds w n" for n
    using that by (auto simp add: defined_widths_def width_holds_def)
  show ?thesis
    using general [of "f64_to_int d"] bound [of "f64_to_int d"] c23 c24 c256 c65536
    by (simp add: encode_def)
qed

text \<open>The theorem at the integer 1000 (the number \<open>0x408F400000000000\<close>).\<close>

theorem encode_integer_width_minimal_witness:
  "Number_isInteger 0x408F400000000000 \<and> f64_to_int 0x408F400000000000 = 1000 \<and>
   width_holds 2 1000 \<and>
   (\<exists>w \<in> set defined_widths.
      width_holds w 1000 \<and>
      (\<forall>w' \<in> set defined_widths. width_holds w' 1000 \<longrightarrow> w \<le> w') \<and>
      encode (VNum 0x408F400000000000) = width_form w 1000)"
proof -
  have i: "Number_isInteger 0x408F400000000000 \<and> f64_to_int 0x408F400000000000 = 1000"
    by (simp add: Number_isInteger_def f64_exponent_def
        f64_fraction_def f64_to_int_def f64_negative_def f64_magnitude_def)
  have h: "\<exists>w \<in> set defined_widths. width_holds w 1000" "width_holds 2 1000"
    by (simp_all add: defined_widths_def width_holds_def)
  show ?thesis
    using encode_integer_width_minimal [of "0x408F400000000000"] i h by simp
qed


text \<open>
  Claim C9 (out-of-range integers are dropped silently).  \<open>encode\<close> is a total function to
  a byte sequence: no branch of \<open>encodeItem\<close> or \<open>encodeUnsigned\<close> throws.  When the magnitude
  passed to \<open>encodeUnsigned\<close> is at least \<open>2^32\<close> no test of its chain holds and the buffer
  is returned as it was; so a number that is an integer \<open>n\<close> with \<open>n \<ge> 2^32\<close>, or with
  \<open>-n-1 \<ge> 2^32\<close>, contributes no byte at all: alone it encodes to the empty sequence, and
  as the only element of an array it leaves just the array's header.
\<close>

theorem encode_out_of_range_integer_silent:
  "(2 ^ 32 \<le> value \<longrightarrow> encodeUnsigned value majorType buf = buf) \<and>
   (Number_isInteger d \<and>
    2 ^ 32 \<le> (if 0 \<le> f64_to_int d then f64_to_int d else - f64_to_int d - 1) \<longrightarrow>
      encodeItem (VNum d) buf = buf \<and>
      encode (VNum d) = [] \<and>
      encode (VArray [VNum d]) = [0x81])"
proof -
  have u: "encodeUnsigned v t b = b" if "2 ^ 32 \<le> v" for v t b
    using that by (simp add: encodeUnsigned_def)
  have hdr: "map ToUint8 (encodeUnsigned 1 4 []) = [0x81]"
    by (simp add: encodeUnsigned_def js_shl_def js_or_def ToInt32_def ToUint8_def)
  have item: "encodeItem (VNum d) b = b"
    if "Number_isInteger d"
      "2 ^ 32 \<le> (if 0 \<le> f64_to_int d then f64_to_int d else - f64_to_int d - 1)" for b
    using that u by (simp split: if_splits)
  show ?thesis
    using u [of "value" majorType buf] item hdr
    by (simp add: encode_def)
qed

text \<open>
  The theorem at the integer \<open>2^32\<close> (the number \<open>0x41F0000000000000\<close>), pushed onto a
  buffer that already holds one byte.
\<close>

theorem encode_out_of_range_integer_silent_witness:
  "(2::int) ^ 32 \<le> 4294967296 \<and> encodeUnsigned 4294967296 0 [0x01] = [0x01] \<and>
   Number_isInteger 0x41F0000000000000 \<and> f64_to_int 0x41F0000000000000 = 2 ^ 32 \<and>
   encodeItem (VNum 0x41F0000000000000) [0x01] = [0x01] \<and>
   encode (VNum 0x41F0000000000000) = [] \<and>
   encode (VArray [VNum 0x41F0000000000000]) = [0x81]"
proof -
  have i: "Number_isInteger 0x41F0000000000000 \<and> f64_to_int 0x41F0000000000000 = 2 ^ 32"
    by (simp add: Number_isInteger_def f64_exponent_def
        f64_fraction_def f64_to_int_def f64_negative_def f64_magnitude_def)
  show ?thesis
    using encode_out_of_range_integer_silent [of 4294967296 0 "[0x01]" "0x41F0000000000000"] i
    by simp
qed

subsection \<open>Float encoding\<close>

text \<open>
  Claim C4 (float invariant), as stated: the float value \<open>5.0\<close> encodes to the 9-byte double
  form.  The number \<open>5.0\<close> is \<open>0x4014000000000000\<close> (sign 0, exponent 1025, fraction
  \<open>0x4000000000000\<close>, that is \<open>1.25 * 2^2\<close>); \<open>Number.isInteger\<close> holds of it, and \<open>encode\<close>
  yields the single byte \<open>0x05\<close>.
\<close>

theorem encode_float_five_counterexample:
  "Number_isInteger 0x4014000000000000 \<and>
   encode (VNum 0x4014000000000000) = [0x05] \<and>
   length (encode (VNum 0x4014000000000000)) \<noteq> 9"
proof -
  have i: "Number_isInteger 0x4014000000000000 \<and> f64_to_int 0x4014000000000000 = 5"
    by (simp add: Number_isInteger_def f64_exponent_def
        f64_fraction_def f64_to_int_def f64_negative_def f64_magnitude_def)
  have "encode (VNum 0x4014000000000000) = [0x05]"
    using encodeUnsigned_major0 [of 5] by (simp add: encode_def i width_form_def)
  then show ?thesis using i by simp
qed

text \<open>
  Claim C4, amended.  Every number for which \<open>Number.isInteger\<close> is false (a value with a
  fractional part, an infinity or NaN) encodes to nine bytes: \<open>0xFB\<close> followed by the eight
  bytes of its binary64 representation, most significant first.
\<close>

theorem encode_non_integer_double_form:
  "\<not> Number_isInteger d \<Longrightarrow>
     encode (VNum d) = 0xFB # map ToUint8 (float64_bytes d) \<and>
     length (encode (VNum d)) = 9 \<and>
     be_value (tl (encode (VNum d))) = unat d"
proof -
  assume "\<not> Number_isInteger d"
  then have e: "encode (VNum d) = 0xFB # map ToUint8 (float64_bytes d)"
    by (simp add: encode_def ToUint8_def)
  have "length (float64_bytes d) = 8"
    by (simp add: float64_bytes_def)
  then show ?thesis
    using e be_value_float64_bytes [of d] by simp
qed

text \<open>The theorem at the number \<open>1.5\<close> (\<open>0x3FF8000000000000\<close>).\<close>

theorem encode_non_integer_double_form_witness:
  "\<not> Number_isInteger 0x3FF8000000000000 \<and>
   encode (VNum 0x3FF8000000000000) = [0xFB, 0x3F, 0xF8, 0, 0, 0, 0, 0, 0] \<and>
   length (encode (VNum 0x3FF8000000000000)) = 9 \<and>
   be_value (tl (encode (VNum 0x3FF8000000000000))) = unat (0x3FF8000000000000 :: float64)"
proof -
  have n: "\<not> Number_isInteger 0x3FF8000000000000"
    by (simp add: Number_isInteger_def f64_exponent_def f64_fraction_def)
  have b: "map ToUint8 (float64_bytes 0x3FF8000000000000) = [0x3F, 0xF8, 0, 0, 0, 0, 0, 0]"
    by (simp add: float64_bytes_def ToUint8_def upt_rec)
  show ?thesis
    using encode_non_integer_double_form [OF n] n b by (simp add: be_value_def)
qed

subsection \<open>Decoding\<close>

lemma encode_simple:
  "encode VNull = [0xF6]" "encode VUndefined = [0xF7]"
  "encode (VBool True) = [0xF5]" "encode (VBool False) = [0xF4]"
  by (simp_all add: encode_def ToUint8_def)

text \<open>
  The additional information is the low five bits of the initial byte, so it is never one
  of \<open>0xF4\<close>..\<open>0xF7\<close>: the four early returns of \<open>decodeItem\<close> are dead code, and the decoder
  never yields \<open>null\<close>, \<open>true\<close> or \<open>false\<close>.
\<close>

lemma and_31: "(x::nat) AND 0x1F = x mod 32"
proof -
  have "x AND mask 5 = take_bit 5 x" by (simp add: take_bit_eq_mask)
  then show ?thesis by (simp add: take_bit_eq_mod mask_eq_exp_minus_1)
qed

lemma info_bound: "(byte::nat) AND 0x1F < 32"
  by (simp add: and_31)

lemma decodeHead_never_Early: "decodeHead view offset \<noteq> Return (Early v used)"
proof (cases "getUint8 view offset")
  case (Return byte)
  have "byte AND 0x1F < 32" by (rule info_bound)
  then have "byte AND 0x1F \<noteq> 0xF4" "byte AND 0x1F \<noteq> 0xF5"
      "byte AND 0x1F \<noteq> 0xF6" "byte AND 0x1F \<noteq> 0xF7"
    by simp_all
  then show ?thesis
    using Return
    by (simp add: decodeHead_def Let_def split: completion.splits)
next
  case (Throw e)
  then show ?thesis by (simp add: decodeHead_def)
next
  case Unmodelled
  then show ?thesis by (simp add: decodeHead_def)
qed

lemma decodeItem_never_simple:
  assumes "decodeItem view offset = Return (v, used)"
  shows "v \<noteq> VNull \<and> v \<noteq> VBool b"
proof (cases "decodeHead view offset")
  case (Return h)
  show ?thesis
  proof (cases h)
    case (Early v' u')
    with Return show ?thesis using decodeHead_never_Early [of view offset v' u'] by simp
  next
    case (Head majorType info val bytesUsed)
    with Return assms show ?thesis
      by (auto simp add: decodeItem.simps [of view offset]
          split: if_splits option.splits completion.splits number.splits prod.splits)
  qed
next
  case (Throw e)
  with assms show ?thesis by (simp add: decodeItem.simps [of view offset])
next
  case Unmodelled
  with assms show ?thesis by (simp add: decodeItem.simps [of view offset])
qed

lemma decode_never_simple: "decode data \<noteq> Return VNull \<and> decode data \<noteq> Return (VBool b)"
proof (cases "decodeItem data (Ix 0)")
  case (Return r)
  obtain v used where "r = (v, used)" by (cases r)
  with Return show ?thesis
    using decodeItem_never_simple [of data "Ix 0" v used b]
    by (auto simp add: decode_def)
next
  case (Throw e)
  then show ?thesis by (simp add: decode_def)
next
  case Unmodelled
  then show ?thesis by (simp add: decode_def)
qed

text \<open>
  Claim C1 (round trip), at \<open>null\<close>, \<open>undefined\<close>, \<open>true\<close> and \<open>false\<close>: the encoder emits the
  control bytes \<open>0xF6\<close>, \<open>0xF7\<close>, \<open>0xF5\<close> and \<open>0xF4\<close>; on each of them the decoder finds major
  type 7 with additional information 22, 23, 21 and 20, none of which is 27, and throws
  \<open>Unsupported CBOR type: 7\<close> instead of returning the value.  Indeed no input at all is
  decoded to \<open>null\<close>, \<open>true\<close> or \<open>false\<close>.
\<close>

theorem decode_encode_simple_values_throw:
  "decode (Uint8Array_from (encode VNull)) = Throw (Unsupported 7) \<and>
   decode (Uint8Array_from (encode VUndefined)) = Throw (Unsupported 7) \<and>
   decode (Uint8Array_from (encode (VBool True))) = Throw (Unsupported 7) \<and>
   decode (Uint8Array_from (encode (VBool False))) = Throw (Unsupported 7) \<and>
   decode data \<noteq> Return VNull \<and> decode data \<noteq> Return (VBool b)"
proof -
  have "decode (Uint8Array_from [0xF6]) = Throw (Unsupported 7)"
    "decode (Uint8Array_from [0xF7]) = Throw (Unsupported 7)"
    "decode (Uint8Array_from [0xF5]) = Throw (Unsupported 7)"
    "decode (Uint8Array_from [0xF4]) = Throw (Unsupported 7)"
    by (simp_all add: decode_def Uint8Array_from_def decodeItem.simps decodeHead_def
        getUint8_def getUint_def getBytes_def be_value_def)
  then show ?thesis
    using decode_never_simple [of data b] by (simp add: encode_simple)
qed

text \<open>
  Claim C8 (malformed input is rejected), at three inputs.  The initial byte \<open>0x1C\<close> (major
  type 0, additional information 28, which no width rule defines) leaves \<open>value\<close> undefined
  and is decoded to \<open>undefined\<close> without an error; \<open>0x9F\<close> (major type 4, additional
  information 31) is decoded to the empty array; and a two-byte array \<open>[0x42, 0x01]\<close> that
  is a window of a three-byte buffer declares a byte string of length 2, of which the
  window holds one byte, and is decoded to two bytes, the second from outside the window.
\<close>

theorem decode_malformed_accepted:
  "decode (Uint8Array_from [0x1C]) = Return VUndefined \<and>
   decode (Uint8Array_from [0x9F]) = Return (VArray []) \<and>
   decode \<lparr>buffer = [0x42, 0x01, 0x02], byteOffset = 0, byteLength = 2\<rparr>
     = Return (VBytes [0x01, 0x02])"
  by (simp add: decode_def Uint8Array_from_def decodeItem.simps decodeArray.simps decodeHead_def
      getUint8_def getUint_def getBytes_def be_value_def Uint8Array_window_def)

section \<open>Properties of the serial core\<close>

lemma indexOf_ge: "- 1 \<le> indexOf xs x"
  by (induction xs) (auto simp: Let_def)

lemma indexOf_mem: "(indexOf xs x > - 1) = (x \<in> set xs)"
  by (induction xs) (auto simp: Let_def)

lemma splice1_indexOf: "x \<in> set xs \<Longrightarrow> splice1 xs (indexOf xs x) = remove1 x xs"
proof (induction xs)
  case Nil
  then show ?case by simp
next
  case (Cons y ys)
  show ?case
  proof (cases "y = x")
    case True
    then show ?thesis by (simp add: splice1_def)
  next
    case False
    with Cons.prems have m: "x \<in> set ys" by simp
    then have "indexOf ys x > - 1" by (simp add: indexOf_mem)
    then have p: "\<not> indexOf ys x < 0" by simp
    then have "nat (indexOf ys x + 1) = Suc (nat (indexOf ys x))" by simp
    with False m p Cons.IH show ?thesis
      by (simp add: splice1_def Let_def)
  qed
qed

lemma remove1_snoc_fresh: "x \<notin> set xs \<Longrightarrow> remove1 x (xs @ [x]) = xs"
  by (induction xs) auto

text \<open>
  Claim C10 (the timeout is reported in-band).  On a connected core whose write succeeds,
  \<open>sendCommand\<close> writes the command line, returns a pending promise, queues its resolver
  last and starts a timer of 5000 ms.  When that timer fires with the resolver still
  queued, the resolver is taken out of the queue, which is then as it was before the call,
  and the promise is resolved, not rejected, with the string \<open>TIMEOUT\<close>.  A device that
  answers with the line \<open>TIMEOUT\<close> settles the promise to the very same value.
\<close>

theorem sendCommand_timeout_in_band:
  assumes "ws_connected st" and "ws_writer st" and "ws_writeError st = None"
    and "ws_nextPromise st \<notin> set (responseResolvers st)"
  shows "fst (sendCommand st command) = Inr (ws_nextPromise st) \<and>
     ws_written (snd (sendCommand st command)) = ws_written st @ [command @ [CHR 0x0A]] \<and>
     responseResolvers (snd (sendCommand st command)) = responseResolvers st @ [ws_nextPromise st] \<and>
     ws_timers (snd (sendCommand st command)) = ws_timers st @ [(5000, ws_nextPromise st)] \<and>
     ws_promises (snd (sendCommand st command)) (ws_nextPromise st) = Pending \<and>
     responseResolvers (sendCommand_timeout (snd (sendCommand st command)) (ws_nextPromise st))
       = responseResolvers st \<and>
     ws_promises (sendCommand_timeout (snd (sendCommand st command)) (ws_nextPromise st))
       (ws_nextPromise st) = Resolved ''TIMEOUT'' \<and>
     (responseResolvers st = [] \<and> ws_buffer st = [] \<longrightarrow>
        ws_promises (receiveText (snd (sendCommand st command)) (''TIMEOUT'' @ [CHR 0x0A]))
          (ws_nextPromise st) = Resolved ''TIMEOUT'')"
proof -
  let ?p = "ws_nextPromise st"
  let ?st1 = "snd (sendCommand st command)"
  have s: "sendCommand st command =
      (Inr ?p, st\<lparr>ws_written := ws_written st @ [command @ [CHR 0x0A]],
                    ws_promises := (ws_promises st)(?p := Pending),
                    ws_nextPromise := ?p + 1,
                    responseResolvers := responseResolvers st @ [?p],
                    ws_timers := ws_timers st @ [(5000, ?p)]\<rparr>)"
    using assms by (simp add: sendCommand_def Let_def)
  have m: "?p \<in> set (responseResolvers st @ [?p])" by simp
  have t: "responseResolvers (sendCommand_timeout ?st1 ?p) = responseResolvers st \<and>
      ws_promises (sendCommand_timeout ?st1 ?p) ?p = Resolved ''TIMEOUT''"
    using assms(4) m
    by (simp add: s sendCommand_timeout_def Let_def indexOf_mem splice1_indexOf
        remove1_snoc_fresh settle_def del: remove1_append)
  have r: "ws_promises (receiveText ?st1 (''TIMEOUT'' @ [CHR 0x0A])) ?p = Resolved ''TIMEOUT''"
    if "responseResolvers st = []" "ws_buffer st = []"
    using that
    by (simp add: s receiveText_def processBuffer_def Let_def trim_truthy_def
        handleResponse_def settle_def)
  show ?thesis using t r by (simp add: s)
qed

text \<open>The theorem at the command \<open>ping\<close> on a freshly connected core.\<close>

theorem sendCommand_timeout_in_band_witness:
  "ws_connected WebSerialCore_connected \<and> ws_writer WebSerialCore_connected \<and>
   ws_writeError WebSerialCore_connected = None \<and>
   ws_nextPromise WebSerialCore_connected = 0 \<and>
   responseResolvers WebSerialCore_connected = [] \<and> ws_buffer WebSerialCore_connected = [] \<and>
   fst (sendCommand WebSerialCore_connected ''ping'') = Inr 0 \<and>
   ws_written (snd (sendCommand WebSerialCore_connected ''ping'')) = [''ping'' @ [CHR 0x0A]] \<and>
   responseResolvers (snd (sendCommand WebSerialCore_connected ''ping'')) = [0] \<and>
   ws_timers (snd (sendCommand WebSerialCore_connected ''ping'')) = [(5000, 0)] \<and>
   ws_promises (snd (sendCommand WebSerialCore_connected ''ping'')) 0 = Pending \<and>
   responseResolvers (sendCommand_timeout (snd (sendCommand WebSerialCore_connected ''ping'')) 0)
     = [] \<and>
   ws_promises (sendCommand_timeout (snd (sendCommand WebSerialCore_connected ''ping'')) 0) 0
     = Resolved ''TIMEOUT'' \<and>
   ws_promises (receiveText (snd (sendCommand WebSerialCore_connected ''ping''))
                  (''TIMEOUT'' @ [CHR 0x0A])) 0
     = Resolved ''TIMEOUT''"
proof -
  have f: "ws_connected WebSerialCore_connected" "ws_writer WebSerialCore_connected"
    "ws_writeError WebSerialCore_connected = None"
    "ws_nextPromise WebSerialCore_connected \<notin> set (responseResolvers WebSerialCore_connected)"
    by (simp_all add: WebSerialCore_connected_def WebSerialCore_new_def)
  have g: "ws_nextPromise WebSerialCore_connected = 0"
    "responseResolvers WebSerialCore_connected = []" "ws_buffer WebSerialCore_connected = []"
    "ws_written WebSerialCore_connected = []" "ws_timers WebSerialCore_connected = []"
    by (simp_all add: WebSerialCore_connected_def WebSerialCore_new_def)
  show ?thesis
    using sendCommand_timeout_in_band [OF f, of "''ping''"] f(1-3) g
    by simp
qed

section \<open>Properties of the request client\<close>

subsection \<open>Events, requests and the stand-in session\<close>

lemma off_fields:
  "connected (off st event cb) = connected st"
  "protocol (off st event cb) = protocol st"
  by (simp_all add: off_def Let_def split: option.splits)

lemma call_listener_fields:
  "connected (call_listener st event cb d) = connected st"
  "protocol (call_listener st event cb d) = protocol st"
  by (cases cb; simp add: call_listener_def Let_def off_fields)+

lemma forEach_from_fields:
  "connected (forEach_from st event d k n) = connected st"
  "protocol (forEach_from st event d k n) = protocol st"
  by (induction n arbitrary: st k; simp add: Let_def call_listener_fields)+

lemma emit_fields:
  "connected (emit st event d) = connected st"
  "protocol (emit st event d) = protocol st"
  by (simp_all add: emit_def forEach_from_fields split: option.splits)

lemma handleCoAPFrame_data_response:
  "data_response api frame = Some e \<Longrightarrow>
     handleCoAPFrame api st frame = (Return (), emit st ''dataReceived'' e)"
  by (auto simp add: data_response_def handleCoAPFrame_def
      split: completion.splits option.splits if_splits)

lemma emit_first_of_two:
  assumes "eventListeners st ''dataReceived'' = Some [Handler a, Handler b]"
    and "a \<noteq> b" and "promises st a = Pending"
  shows "promises (emit st ''dataReceived'' e) a = Resolved e"
    and "promises (emit st ''dataReceived'' e) b = promises st b"
    and "eventListeners (emit st ''dataReceived'' e) ''dataReceived'' = Some [Handler b]"
  using assms
  by (simp_all add: emit_def call_listener_def off_def splice1_def settle_def Let_def)

lemma emit_only_one:
  assumes "eventListeners st ''dataReceived'' = Some [Handler b]"
    and "promises st b = Pending"
  shows "promises (emit st ''dataReceived'' e) b = Resolved e"
    and "a \<noteq> b \<Longrightarrow> promises (emit st ''dataReceived'' e) a = promises st a"
    and "eventListeners (emit st ''dataReceived'' e) ''dataReceived'' = Some []"
  using assms
  by (simp_all add: emit_def call_listener_def off_def splice1_def settle_def Let_def)

lemma yangGet_ok:
  assumes "connected st" and "writer st" and "writeError st = None"
    and "\<not> falsy (yangCatalogId st)"
  shows "fst (yangGet api st path) = Return (nextPromise st)"
    and "connected (snd (yangGet api st path))"
    and "writer (snd (yangGet api st path))"
    and "writeError (snd (yangGet api st path)) = None"
    and "yangCatalogId (snd (yangGet api st path)) = yangCatalogId st"
    and "nextPromise (snd (yangGet api st path)) = nextPromise st + 1"
    and "promises (snd (yangGet api st path)) = (promises st)(nextPromise st := Pending)"
    and "timers (snd (yangGet api st path)) = timers st @ [(10000, nextPromise st)]"
    and "eventListeners (snd (yangGet api st path)) ''dataReceived'' =
           Some ((case eventListeners st ''dataReceived'' of None \<Rightarrow> [] | Some l \<Rightarrow> l)
                 @ [Handler (nextPromise st)])"
    and "written (snd (yangGet api st path)) =
           written st @ [fst (createCoAPMessage api ''GET'' path None (protocol st))]"
    and "protocol (snd (yangGet api st path)) =
           snd (createCoAPMessage api ''GET'' path None (protocol st))"
  using assms
  by (simp_all add: yangGet_def sendRaw_def awaitResponse_def on_def Let_def split_def
      split: option.splits)

lemma issue_ok:
  assumes "connected st" and "writer st" and "writeError st = None"
    and "\<not> falsy (yangCatalogId st)"
  shows "fst (issue api st r) = Return (nextPromise st)"
    and "connected (snd (issue api st r))"
    and "writer (snd (issue api st r))"
    and "writeError (snd (issue api st r)) = None"
    and "yangCatalogId (snd (issue api st r)) = yangCatalogId st"
    and "nextPromise (snd (issue api st r)) = nextPromise st + 1"
    and "promises (snd (issue api st r)) = (promises st)(nextPromise st := Pending)"
    and "timers (snd (issue api st r)) = timers st @ [(10000, nextPromise st)]"
    and "eventListeners (snd (issue api st r)) ''dataReceived'' =
           Some (dataReceived_listeners st @ [Handler (nextPromise st)])"
  using assms
  by (cases r;
      simp add: issue_def yangGet_def yangSet_def yangDelete_def sendRaw_def awaitResponse_def
        on_def Let_def split_def dataReceived_listeners_def split: option.splits)+

lemma ilog2_1: "ilog2 (Suc 0) = 0" by (simp add: ilog2.simps)
lemma ilog2_2: "ilog2 2 = 1" by (simp add: ilog2.simps)

lemma f64_of_int_1: "f64_of_int 1 = 0x3FF0000000000000"
  by (simp add: f64_of_int_def ilog2_1)

lemma f64_of_int_2: "f64_of_int 2 = 0x4000000000000000"
  by (simp add: f64_of_int_def ilog2_2)

lemma decode_small:
  "decode (Uint8Array_from [0x01]) = Return (VNum (f64_of_int 1))"
  "decode (Uint8Array_from [0x02]) = Return (VNum (f64_of_int 2))"
  "decode (Uint8Array_from [0x18]) = Throw RangeError"
  by (simp_all add: decode_def Uint8Array_from_def decodeItem.simps decodeHead_def getUint8_def
      getUint_def getBytes_def be_value_def)

lemma demo_data_response:
  "data_response demo_module [0x01, 0x02] = Some (DataReceived 1 69 (VNum (f64_of_int 2)))"
  "data_response demo_module [0x00, 0x01] = Some (DataReceived 0 69 (VNum (f64_of_int 1)))"
  by (simp_all add: data_response_def demo_module_def decode_small isYangCatalogResponse_def)

lemma ready_client_fields:
  "connected ready_client" "writer ready_client" "writeError ready_client = None"
  "\<not> falsy (yangCatalogId ready_client)"
  "eventListeners ready_client ''dataReceived'' = None"
  "nextPromise ready_client = 0" "written ready_client = []" "protocol ready_client = 0"
  "timers ready_client = []"
  by (simp_all add: ready_client_def client_new_def falsy_def)

lemma ready_client_no_listeners: "dataReceived_listeners ready_client = []"
  by (simp add: dataReceived_listeners_def ready_client_fields)

lemma emit_no_listeners: "eventListeners st event = None \<Longrightarrow> emit st event d = st"
  by (simp add: emit_def)

lemma emit_head_of_two:
  assumes "eventListeners st ''dataReceived'' = Some [Handler a, Handler b]"
    and "a \<noteq> b"
  shows "promises (emit st ''dataReceived'' e) = settle (promises st) a (Resolved e)"
    and "eventListeners (emit st ''dataReceived'' e) ''dataReceived'' = Some [Handler b]"
    and "timers (emit st ''dataReceived'' e) = filter (\<lambda>t. snd t \<noteq> a) (timers st)"
  using assms
  by (simp_all add: emit_def call_listener_def off_def splice1_def Let_def)

lemma one_request_fields:
  "connected one_request" "writer one_request" "writeError one_request = None"
  "\<not> falsy (yangCatalogId one_request)"
  "eventListeners one_request ''dataReceived'' = Some [Handler 0]"
  "nextPromise one_request = 1" "promises one_request 0 = Pending"
  "timers one_request = [(10000, 0)]"
  "written one_request = [[0x00, 0x2F, 0x61]]"
  "protocol one_request = 1"
  unfolding one_request_def
  using yangGet_ok [OF ready_client_fields(1-4), of demo_module "''/a''"]
  by (simp_all add: ready_client_fields demo_module_def)

lemma two_requests_fields:
  "eventListeners two_requests ''dataReceived'' = Some [Handler 0, Handler 1]"
  "written two_requests = [[0x00, 0x2F, 0x61], [0x01, 0x2F, 0x62]]"
  "timers two_requests = [(10000, 0), (10000, 1)]"
  "promises two_requests 0 = Pending" "promises two_requests 1 = Pending"
  unfolding two_requests_def
  using yangGet_ok [OF one_request_fields(1-4), of demo_module "''/b''"]
  by (simp_all add: one_request_fields demo_module_def)

lemma timed_out_fields:
  "connected timed_out" "writer timed_out" "writeError timed_out = None"
  "\<not> falsy (yangCatalogId timed_out)"
  "eventListeners timed_out ''dataReceived'' = Some [Handler 0]"
  "nextPromise timed_out = 1"
  "promises timed_out 0 = Rejected (Error ''Request timeout'')"
  "timers timed_out = []"
  by (simp_all add: timed_out_def request_timeout_def one_request_fields settle_def)

lemma timed_out_then_request_fields:
  "fst (yangGet demo_module timed_out ''/b'') = Return 1"
  "eventListeners timed_out_then_request ''dataReceived'' = Some [Handler 0, Handler 1]"
  "promises timed_out_then_request 0 = Rejected (Error ''Request timeout'')"
  "promises timed_out_then_request 1 = Pending"
  "timers timed_out_then_request = [(10000, 1)]"
  unfolding timed_out_then_request_def
  using yangGet_ok [OF timed_out_fields(1-4), of demo_module "''/b''"]
  by (simp_all add: timed_out_fields)

lemma listening_client_fields:
  "connected listening_client" "protocol listening_client = 0"
  "eventListeners listening_client ''rawData'' = None"
  "eventListeners listening_client ''error'' = None"
  "eventListeners listening_client ''dataReceived'' = Some [External 0]"
  "calls listening_client = []"
  by (simp_all add: listening_client_def on_def Let_def ready_client_def client_new_def)

lemma demo_not_ping:
  "\<not> includes_sub [0x00, 0x18 :: byte] (map (\<lambda>c. of_char c) ''VelocitySP-v'')"
  "\<not> includes_sub [0x00, 0x01 :: byte] (map (\<lambda>c. of_char c) ''VelocitySP-v'')"
  by simp_all

lemma demo_bad_frame_facts:
  "connected listening_client \<and>
   \<not> includes_sub [0x00, 0x18 :: byte] (map (\<lambda>c. of_char c) ''VelocitySP-v'') \<and>
   processData demo_module [0x00, 0x18] (protocol listening_client) = (Return [[0x00, 0x18]], 0) \<and>
   CoAPMessage_decode demo_module [0x00, 0x18]
     = Return (Some \<lparr>messageId = 0, code = 69, payload = Some [0x18]\<rparr>) \<and>
   CBORCodec_decode demo_module [0x18] = Throw RangeError"
  by (simp add: listening_client_fields demo_module_def decode_small)

subsection \<open>Session gating\<close>

text \<open>
  Claim C7 (session gating).  While \<open>yangCatalogId\<close> is unset (\<open>null\<close>, or the empty string),
  each of \<open>yangGet\<close>, \<open>yangSet\<close> and \<open>yangDelete\<close> throws \<open>YANG catalog not loaded\<close> at once and
  leaves the whole state as it was: the protocol object has built no message, nothing
  has been handed to the writer, and no promise, timer or listener has been added.
\<close>

theorem requests_gated_on_catalog:
  "falsy (yangCatalogId st) \<Longrightarrow>
     yangGet api st path = (Throw (Error ''YANG catalog not loaded''), st) \<and>
     yangSet api st path v = (Throw (Error ''YANG catalog not loaded''), st) \<and>
     yangDelete api st path = (Throw (Error ''YANG catalog not loaded''), st)"
  by (simp add: yangGet_def yangSet_def yangDelete_def)

text \<open>The theorem at the client as its constructor leaves it.\<close>

theorem requests_gated_on_catalog_witness:
  "falsy (yangCatalogId (client_new (0::nat))) \<and>
   yangGet demo_module (client_new 0) ''/ietf-interfaces:interfaces''
     = (Throw (Error ''YANG catalog not loaded''), client_new 0) \<and>
   yangSet demo_module (client_new 0) ''/ietf-interfaces:interfaces'' (VBool True)
     = (Throw (Error ''YANG catalog not loaded''), client_new 0) \<and>
   yangDelete demo_module (client_new 0) ''/ietf-interfaces:interfaces''
     = (Throw (Error ''YANG catalog not loaded''), client_new 0)"
proof -
  have f: "falsy (yangCatalogId (client_new (0::nat)))"
    by (simp add: falsy_def client_new_def)
  show ?thesis
    using requests_gated_on_catalog [OF f, of demo_module "''/ietf-interfaces:interfaces''" "VBool True"] f
    by simp
qed

subsection \<open>Correlation of responses\<close>

text \<open>
  Claim C2 (token-keyed correlation), as stated, on the stand-in session: \<open>yangGet('/a')\<close>
  sends the message with id 0 and \<open>yangGet('/b')\<close> the message with id 1; the response
  with id 1 is delivered first and the response with id 0 second.  The promise of the
  first request is resolved with the response that carries id 1, and the promise of the
  second with the response that carries id 0; neither gets the response to its own request.
\<close>

theorem reverse_order_responses_misrouted:
  "fst (yangGet demo_module ready_client ''/a'') = Return 0 \<and>
   fst (yangGet demo_module one_request ''/b'') = Return 1 \<and>
   written two_requests = [[0x00, 0x2F, 0x61], [0x01, 0x2F, 0x62]] \<and>
   data_response demo_module [0x01, 0x02] = Some (DataReceived 1 69 (VNum (f64_of_int 2))) \<and>
   data_response demo_module [0x00, 0x01] = Some (DataReceived 0 69 (VNum (f64_of_int 1))) \<and>
   promises after_second_frame 0 = Resolved (DataReceived 1 69 (VNum (f64_of_int 2))) \<and>
   promises after_second_frame 0 \<noteq> Resolved (DataReceived 0 69 (VNum (f64_of_int 1))) \<and>
   promises after_second_frame 1 = Resolved (DataReceived 0 69 (VNum (f64_of_int 1)))"
proof -
  have a: "fst (yangGet demo_module ready_client ''/a'') = Return 0"
    using yangGet_ok(1) [OF ready_client_fields(1-4), of demo_module "''/a''"]
    by (simp add: ready_client_fields)
  have b: "fst (yangGet demo_module one_request ''/b'') = Return 1"
    using yangGet_ok(1) [OF one_request_fields(1-4), of demo_module "''/b''"]
    by (simp add: one_request_fields)
  have s1: "after_first_frame =
      emit two_requests ''dataReceived'' (DataReceived 1 69 (VNum (f64_of_int 2)))"
    by (simp add: after_first_frame_def handleCoAPFrame_data_response [OF demo_data_response(1)])
  have s2: "after_second_frame =
      emit after_first_frame ''dataReceived'' (DataReceived 0 69 (VNum (f64_of_int 1)))"
    by (simp add: after_second_frame_def handleCoAPFrame_data_response [OF demo_data_response(2)])
  have ne: "(0::nat) \<noteq> 1" by simp
  note E1 = emit_first_of_two [OF two_requests_fields(1) ne two_requests_fields(4),
      where e = "DataReceived 1 69 (VNum (f64_of_int 2))", folded s1]
  have p1: "promises after_first_frame 1 = Pending"
    using E1(2) two_requests_fields(5) by simp
  note E2 = emit_only_one [OF E1(3) p1,
      where e = "DataReceived 0 69 (VNum (f64_of_int 1))", folded s2]
  have q: "promises after_second_frame 0 = Resolved (DataReceived 1 69 (VNum (f64_of_int 2)))"
    using E2(2) [OF ne] E1(1) by simp
  show ?thesis
    using a b two_requests_fields(2) demo_data_response q E2(1) by simp
qed

text \<open>
  Claim C2, amended.  No handler looks at the message id or token of a response.  On a
  ready session on which no listener is registered for \<open>dataReceived\<close> (the event has no
  entry, or an empty one), let two requests be issued one after the other, each of them
  a \<open>yangGet\<close>, a \<open>yangSet\<close> or a \<open>yangDelete\<close>.  Then the first frame that yields a
  \<open>dataReceived\<close> event resolves the promise of the request issued first, with that event,
  and leaves the other pending; the second such frame resolves the promise of the
  request issued second.  This holds for every protocol module and whatever the events
  carry, so also when the frames answer the requests in reverse order.
\<close>

theorem two_requests_resolved_in_order_of_issue:
  assumes "connected st" and "writer st" and "writeError st = None"
    and "\<not> falsy (yangCatalogId st)"
    and "dataReceived_listeners st = []"
    and "data_response api first = Some e1"
    and "data_response api second = Some e2"
  shows "fst (issue api st rA) = Return (nextPromise st) \<and>
     fst (issue api (snd (issue api st rA)) rB) = Return (nextPromise st + 1) \<and>
     promises
       (snd (handleCoAPFrame api (snd (issue api (snd (issue api st rA)) rB)) first))
       (nextPromise st) = Resolved e1 \<and>
     promises
       (snd (handleCoAPFrame api (snd (issue api (snd (issue api st rA)) rB)) first))
       (nextPromise st + 1) = Pending \<and>
     promises
       (snd (handleCoAPFrame api
          (snd (handleCoAPFrame api (snd (issue api (snd (issue api st rA)) rB)) first))
          second))
       (nextPromise st) = Resolved e1 \<and>
     promises
       (snd (handleCoAPFrame api
          (snd (handleCoAPFrame api (snd (issue api (snd (issue api st rA)) rB)) first))
          second))
       (nextPromise st + 1) = Resolved e2"
proof -
  let ?a = "nextPromise st"
  let ?stA = "snd (issue api st rA)"
  let ?stB = "snd (issue api ?stA rB)"
  let ?st1 = "emit ?stB ''dataReceived'' e1"
  let ?st2 = "emit ?st1 ''dataReceived'' e2"
  note A = issue_ok [OF assms(1-4), of api rA]
  have fA: "\<not> falsy (yangCatalogId ?stA)" using assms(4) A(5) by simp
  note B = issue_ok [OF A(2) A(3) A(4) fA, of api rB]
  have lA: "dataReceived_listeners ?stA = [Handler ?a]"
    using A(9) assms(5) by (simp add: dataReceived_listeners_def)
  have lB: "eventListeners ?stB ''dataReceived'' = Some [Handler ?a, Handler (?a + 1)]"
    using B(9) lA A(6) by simp
  have pB: "promises ?stB ?a = Pending" "promises ?stB (?a + 1) = Pending"
    using B(7) A(7) A(6) by simp_all
  have ne: "?a \<noteq> ?a + 1" by simp
  note E1 = emit_first_of_two [OF lB ne pB(1), where e = e1]
  have p1: "promises ?st1 (?a + 1) = Pending" using E1(2) pB(2) by simp
  note E2 = emit_only_one [OF E1(3) p1, where e = e2]
  have q: "promises ?st2 ?a = Resolved e1" using E2(2) [OF ne] E1(1) by simp
  have h1: "snd (handleCoAPFrame api ?stB first) = ?st1"
    by (simp add: handleCoAPFrame_data_response [OF assms(6)])
  have h2: "snd (handleCoAPFrame api ?st1 second) = ?st2"
    by (simp add: handleCoAPFrame_data_response [OF assms(7)])
  show ?thesis
    unfolding h1 h2 using A(1) B(1) A(6) E1(1) p1 q E2(1) by simp
qed

text \<open>
  The theorem on the stand-in session, with a \<open>yangSet\<close> and a \<open>yangDelete\<close> and the two
  frames in reverse order of issuance.
\<close>

theorem two_requests_resolved_in_order_of_issue_witness:
  "connected ready_client \<and> writer ready_client \<and> writeError ready_client = None \<and>
   \<not> falsy (yangCatalogId ready_client) \<and>
   dataReceived_listeners ready_client = [] \<and>
   data_response demo_module [0x01, 0x02] = Some (DataReceived 1 69 (VNum (f64_of_int 2))) \<and>
   data_response demo_module [0x00, 0x01] = Some (DataReceived 0 69 (VNum (f64_of_int 1))) \<and>
   fst (issue demo_module ready_client (YangSet ''/a'' (VBool True))) = Return 0 \<and>
   fst (issue demo_module (snd (issue demo_module ready_client (YangSet ''/a'' (VBool True))))
          (YangDelete ''/b'')) = Return 1 \<and>
   promises
     (snd (handleCoAPFrame demo_module
        (snd (issue demo_module (snd (issue demo_module ready_client (YangSet ''/a'' (VBool True))))
                (YangDelete ''/b'')))
        [0x01, 0x02]))
     0 = Resolved (DataReceived 1 69 (VNum (f64_of_int 2))) \<and>
   promises
     (snd (handleCoAPFrame demo_module
        (snd (handleCoAPFrame demo_module
           (snd (issue demo_module (snd (issue demo_module ready_client (YangSet ''/a'' (VBool True))))
                   (YangDelete ''/b'')))
           [0x01, 0x02]))
        [0x00, 0x01]))
     1 = Resolved (DataReceived 0 69 (VNum (f64_of_int 1)))"
  using two_requests_resolved_in_order_of_issue
    [OF ready_client_fields(1-4) ready_client_no_listeners demo_data_response,
     of "YangSet ''/a'' (VBool True)" "YangDelete ''/b''"]
    ready_client_fields ready_client_no_listeners demo_data_response
  by simp

subsection \<open>Timeout of a request\<close>

text \<open>
  Claim C6 (timeout), at a request with no response.  The callback of the request's timer
  rejects the promise and does nothing else, so it never changes the listener table.  On
  the stand-in session: \<open>yangGet('/a')\<close> returns promise 0 and starts a timer of 10000 ms;
  when it fires the promise is rejected with \<open>Request timeout\<close>, and the handler of promise
  0 is still registered for \<open>dataReceived\<close>.  It stays until a response arrives: after a
  second request (promise 1), the frame that answers it calls the stale handler, which
  removes itself and thereby shifts the handler of promise 1 to an index \<open>forEach\<close> has
  passed; promise 1 stays pending and its handler registered.
\<close>

theorem request_timeout_leaves_handler:
  "eventListeners (request_timeout st n) = eventListeners st \<and>
   fst (yangGet demo_module ready_client ''/a'') = Return 0 \<and>
   timers one_request = [(10000, 0)] \<and>
   promises timed_out 0 = Rejected (Error ''Request timeout'') \<and>
   eventListeners timed_out ''dataReceived'' = Some [Handler 0] \<and>
   fst (yangGet demo_module timed_out ''/b'') = Return 1 \<and>
   data_response demo_module [0x01, 0x02] = Some (DataReceived 1 69 (VNum (f64_of_int 2))) \<and>
   promises timed_out_then_response 1 = Pending \<and>
   eventListeners timed_out_then_response ''dataReceived'' = Some [Handler 1]"
proof -
  have g: "eventListeners (request_timeout st n) = eventListeners st"
    by (simp add: request_timeout_def)
  have a: "fst (yangGet demo_module ready_client ''/a'') = Return 0"
    using yangGet_ok(1) [OF ready_client_fields(1-4), of demo_module "''/a''"]
    by (simp add: ready_client_fields)
  have r: "timed_out_then_response =
      emit timed_out_then_request ''dataReceived'' (DataReceived 1 69 (VNum (f64_of_int 2)))"
    by (simp add: timed_out_then_response_def
        handleCoAPFrame_data_response [OF demo_data_response(1)])
  have ne: "(0::nat) \<noteq> 1" by simp
  note E = emit_head_of_two [OF timed_out_then_request_fields(2) ne,
      where e = "DataReceived 1 69 (VNum (f64_of_int 2))"]
  have p: "promises timed_out_then_response 1 = Pending"
    unfolding r E(1) using timed_out_then_request_fields(3,4) by (simp add: settle_def)
  show ?thesis
    using g a p E(2) one_request_fields(8) timed_out_fields(5,7)
      timed_out_then_request_fields(1) demo_data_response(1)
    by (simp add: r)
qed

subsection \<open>Decode errors in the read loop\<close>

text \<open>
  Claim C3 (decode errors are not fatal to the stream), as stated, on the stand-in session
  with one outside listener for \<open>dataReceived\<close>.  The first chunk is a frame whose payload
  \<open>0x18\<close> announces a byte that is missing, so that the value decoder throws; the second is
  a frame with the payload \<open>0x01\<close>.  The loop ends after the first read, and the listener is
  never called.  Without the first chunk the same frame is dispatched to it.
\<close>

theorem decode_error_stops_later_frames:
  "fst (readLoop demo_module listening_client True [Chunk [0x00, 0x18], Chunk [0x00, 0x01]])
     = (Ended, 1) \<and>
   calls (snd (readLoop demo_module listening_client True
                 [Chunk [0x00, 0x18], Chunk [0x00, 0x01]])) = [] \<and>
   fst (readLoop demo_module listening_client True [Chunk [0x00, 0x01]]) = (Reading, 1) \<and>
   calls (snd (readLoop demo_module listening_client True [Chunk [0x00, 0x01]]))
     = [(0, ''dataReceived'', DataReceived 0 69 (VNum (f64_of_int 1)))]"
proof -
  let ?st1 = "emit listening_client ''rawData'' (RawData Receive [0x00, 0x18])"
  have e1: "emit listening_client ''rawData'' d = listening_client" for d
    by (simp add: emit_no_listeners listening_client_fields)
  have bad: "handleData demo_module listening_client [0x00, 0x18]
      = (Throw RangeError, listening_client)"
  proof -
    have "handleCoAPFrame demo_module listening_client [0x00, 0x18]
        = (Throw RangeError, listening_client)"
      by (simp add: handleCoAPFrame_def demo_module_def decode_small)
    moreover have "listening_client\<lparr>protocol := 0\<rparr> = listening_client"
      using listening_client_fields(2) by (cases listening_client) simp
    ultimately show ?thesis
      using demo_not_ping(1) listening_client_fields(2)
      by (simp add: handleData_def Let_def e1 demo_module_def)
  qed
  have e2: "emit listening_client ''error'' d = listening_client" for d
    by (simp add: emit_no_listeners listening_client_fields)
  have r1: "readLoop demo_module listening_client True [Chunk [0x00, 0x18], Chunk [0x00, 0x01]]
      = ((Ended, 1), listening_client)"
    using listening_client_fields(1) bad by (simp add: e2)
  have good: "handleData demo_module listening_client [0x00, 0x01]
      = (Return (),
         emit listening_client ''dataReceived'' (DataReceived 0 69 (VNum (f64_of_int 1))))"
  proof -
    have "listening_client\<lparr>protocol := 0\<rparr> = listening_client"
      using listening_client_fields(2) by (cases listening_client) simp
    then show ?thesis
      using demo_not_ping(2) listening_client_fields(2)
        handleCoAPFrame_data_response [OF demo_data_response(2), of listening_client]
      by (simp add: handleData_def Let_def e1 demo_module_def)
  qed
  have c: "calls (emit listening_client ''dataReceived'' d) = [(0, ''dataReceived'', d)]" for d
    using listening_client_fields(5,6)
    by (simp add: emit_def call_listener_def)
  have r2: "readLoop demo_module listening_client True [Chunk [0x00, 0x01]]
      = ((Reading, 1),
         emit listening_client ''dataReceived'' (DataReceived 0 69 (VNum (f64_of_int 1))))"
    using listening_client_fields(1) good by simp
  show ?thesis
    unfolding r1 r2 using c listening_client_fields(6) by simp
qed

text \<open>
  Claim C3, amended: a decode error ends the read loop.  When the connected client reads
  a chunk (not a ping response) whose first frame decodes to a message with a payload on
  which the value decoder throws, the exception leaves \<open>handleCoAPFrame\<close> and \<open>handleData\<close>,
  \<open>readLoop\<close> catches it, emits one \<open>error\<close> event and ends, having taken this one read
  result.  The remaining frames of the chunk and all later read results have no effect.
\<close>

theorem decode_error_ends_readLoop:
  assumes "connected st"
    and "\<not> includes_sub data (map (\<lambda>c. of_char c) ''VelocitySP-v'')"
    and "processData api data (protocol st) = (Return (frame # later), p)"
    and "CoAPMessage_decode api frame = Return (Some c)"
    and "payload c = Some bytes"
    and "CBORCodec_decode api bytes = Throw e"
  shows "readLoop api st True (Chunk data # results) =
     ((Ended, 1),
      emit ((emit st ''rawData'' (RawData Receive data))\<lparr>protocol := p\<rparr>) ''error'' (ErrorEvent e))"
proof -
  let ?st1 = "emit st ''rawData'' (RawData Receive data)"
  have f: "handleCoAPFrame api (?st1\<lparr>protocol := p\<rparr>) frame = (Throw e, ?st1\<lparr>protocol := p\<rparr>)"
    using assms(4-6) by (simp add: handleCoAPFrame_def)
  have h: "handleData api st data = (Throw e, ?st1\<lparr>protocol := p\<rparr>)"
    using assms(2,3) f by (simp add: handleData_def Let_def emit_fields)
  have c: "connected (?st1\<lparr>protocol := p\<rparr>)"
    using assms(1) by (simp add: emit_fields)
  show ?thesis
    using assms(1) h c by simp
qed

text \<open>The theorem on the stand-in session of the counterexample.\<close>

theorem decode_error_ends_readLoop_witness:
  "connected listening_client \<and>
   \<not> includes_sub [0x00, 0x18 :: byte] (map (\<lambda>c. of_char c) ''VelocitySP-v'') \<and>
   processData demo_module [0x00, 0x18] (protocol listening_client) = (Return [[0x00, 0x18]], 0) \<and>
   CoAPMessage_decode demo_module [0x00, 0x18]
     = Return (Some \<lparr>messageId = 0, code = 69, payload = Some [0x18]\<rparr>) \<and>
   CBORCodec_decode demo_module [0x18] = Throw RangeError \<and>
   readLoop demo_module listening_client True [Chunk [0x00, 0x18], Chunk [0x00, 0x01]] =
     ((Ended, 1),
      emit ((emit listening_client ''rawData'' (RawData Receive [0x00, 0x18]))\<lparr>protocol := 0\<rparr>)
        ''error'' (ErrorEvent RangeError))"
proof -
  note d = demo_bad_frame_facts
  have p: "payload \<lparr>messageId = 0, code = 69, payload = Some [0x18 :: byte]\<rparr> = Some [0x18]"
    by simp
  show ?thesis
    using decode_error_ends_readLoop
      [of listening_client "[0x00, 0x18]" demo_module "[0x00, 0x18]" "[]" 0
          "\<lparr>messageId = 0, code = 69, payload = Some [0x18]\<rparr>" "[0x18]" RangeError
          "[Chunk [0x00, 0x01]]"]
      d p
    by simp
qed

end
